theory Spec2Isabelle
  imports Complex_Main "HOL-Library.AList"
begin

section \<open>Shared data model (types.ts)\<close>

text \<open>
  Conventions of the embedding.
  \<^item> A JavaScript \<open>number\<close> that carries a token amount, a duration or a percentage is a
    \<open>real\<close>: the arithmetic is exact, IEEE rounding is not modelled. The task counters of
    a peer's status are \<open>nat\<close>.
  \<^item> A \<open>Date\<close> and an ISO time stamp are the milliseconds since the epoch, an \<open>int\<close>;
    \<open>new Date()\<close> is the parameter \<open>now\<close> of the operation that reads the clock.
  \<^item> A \<open>Map<string, V>\<close> is an association list in insertion order: \<open>get\<close> is
    \<open>map_of\<close>, \<open>set\<close> is \<open>AList.update\<close> (an existing key keeps its place, a new key goes
    to the end), \<open>delete\<close> is \<open>AList.delete\<close>, \<open>values()\<close> is \<open>map snd\<close>.
  \<^item> An optional field is an \<open>option\<close>. Payload fields of type \<open>any\<close> that no modelled
    function reads (\<open>Task.data\<close>, \<open>TaskStatus.result\<close>) and the time stamps of outgoing
    messages are left out.
  \<^item> A thrown \<open>Error\<close> is a value of type \<open>error\<close>; an operation returns its outcome
    together with the state it leaves behind, because the mutations made before a throw persist.
\<close>

datatype NodeType = Individual | Regional_node | Global_node

datatype NodeTier = Inference | Aggregator | Training | Feedback

datatype TaskType =
  Compute | Train | Process | Aggregate | Store | Validate | Verify | Dispute | Report | Update

datatype TaskState = Pending | Assigned | Accepted | Processing | Completed | Failed

datatype Priority = Low | Medium | High

datatype error = Error string | TypeError string

record TaskRequirements =
  minTier :: NodeTier
  minStorage :: "real option"
  minMemory :: "real option"
  gpuRequired :: "bool option"
  priority :: Priority
  estimatedDuration :: real
  maxNodes :: int

record TaskReward =
  total :: real
  perNode :: real
  validatorShare :: real
  deadline :: int
  penaltyRate :: real

record TaskStatus =
  state :: TaskState
  assignedNodes :: "string list"
  acceptedNodes :: "string list"
  progress :: real
  startTime :: "int option"
  completionTime :: "int option"
  error :: "string option"

record Task =
  taskId :: string
  type :: TaskType
  requirements :: TaskRequirements
  reward :: TaskReward
  status :: TaskStatus
  timestamp :: int
  expiry :: int
  submitter :: string
  globalValidator :: "string option"
  backupValidators :: "string list option"

record PeerInfo =
  peerId :: string
  nodeType :: NodeType
  nodeTier :: NodeTier
  region :: string
  tokenBalance :: real

record ResourceStats =
  cpu :: real
  memory :: real
  storage :: real
  bandwidth :: real

text \<open>The \<open>status\<close> object of a connected peer (interface \<open>NodeStatus\<close>).\<close>

record NodeStatus =
  online :: bool
  connections :: int
  resources :: ResourceStats
  earnings :: real
  activeTasks_n :: nat
  completedTasks :: nat

text \<open>
  The socket of a peer, as far as the code looks at it: its identity, whether
  \<open>readyState === OPEN\<close>, and whether \<open>send\<close> fails (throws, or reports an error to
  its callback).
\<close>

record ExtendedWebSocket =
  wsId :: nat
  readyState_OPEN :: bool
  send_fails :: bool

record ConnectedPeer =
  ws :: ExtendedWebSocket
  info :: PeerInfo
  joinTime :: int
  lastActivity :: int
  status_p :: NodeStatus

record TierRequirement =
  tiers :: "NodeTier list"
  minReward :: real
  validatorShare_req :: real

fun TASK_TIER_REQUIREMENTS :: "TaskType \<Rightarrow> TierRequirement" where
  "TASK_TIER_REQUIREMENTS Compute =
     \<lparr>tiers = [Training, Feedback], minReward = 100, validatorShare_req = 10\<rparr>"
| "TASK_TIER_REQUIREMENTS Train =
     \<lparr>tiers = [Training, Feedback], minReward = 100, validatorShare_req = 10\<rparr>"
| "TASK_TIER_REQUIREMENTS Process =
     \<lparr>tiers = [Aggregator, Training, Feedback], minReward = 50, validatorShare_req = 10\<rparr>"
| "TASK_TIER_REQUIREMENTS Aggregate =
     \<lparr>tiers = [Aggregator, Training, Feedback], minReward = 50, validatorShare_req = 10\<rparr>"
| "TASK_TIER_REQUIREMENTS Store =
     \<lparr>tiers = [Inference, Aggregator, Training, Feedback], minReward = 20,
      validatorShare_req = 5\<rparr>"
| "TASK_TIER_REQUIREMENTS Validate =
     \<lparr>tiers = [Aggregator, Training, Feedback], minReward = 50, validatorShare_req = 10\<rparr>"
| "TASK_TIER_REQUIREMENTS Verify =
     \<lparr>tiers = [Training, Feedback], minReward = 75, validatorShare_req = 10\<rparr>"
| "TASK_TIER_REQUIREMENTS Dispute =
     \<lparr>tiers = [Feedback], minReward = 100, validatorShare_req = 15\<rparr>"
| "TASK_TIER_REQUIREMENTS Report =
     \<lparr>tiers = [Aggregator, Training, Feedback], minReward = 30, validatorShare_req = 5\<rparr>"
| "TASK_TIER_REQUIREMENTS Update =
     \<lparr>tiers = [Training, Feedback], minReward = 50, validatorShare_req = 10\<rparr>"

datatype GlobalNodeStatus = Active | Degraded | Failing | Offline

record HealthMetrics =
  responsiveness :: real
  taskCompletion :: real
  networkLatency :: real
  resourceUtilization :: real

record GlobalNodeHealth =
  nodeId_h :: string
  status_h :: GlobalNodeStatus
  lastCheck :: int
  metrics_h :: HealthMetrics
  issues :: "string list"

record GlobalNodeFailover =
  failedNodeId :: string
  backupNodeId :: string
  affectedTasks :: "string list"
  timestamp_f :: int
  reason :: string

text \<open>
  The messages the modelled operations put on a socket, one constructor per \<open>type\<close>,
  with the fields the operation fills in: \<open>task_reassignment\<close> carries the task and
  \<open>previousNode\<close>; the \<open>global_node_health\<close> message of \<open>handleDegradedNode\<close> carries
  the peer id and \<open>nodeHealth\<close>, that of \<open>broadcastHealthUpdate\<close> carries
  \<open>globalNodeHealth\<close>; \<open>sync_request\<close> carries the tasks and the validators of its
  \<open>syncData\<close> (the network metrics in it are read-only aggregates and are left out).
\<close>

datatype SignalingMessage =
  Task_broadcast Task
| Task_assignment Task
| Reward_distribution string real
| Error_message string
| Network_state "PeerInfo list"
| Peer_joined PeerInfo
| Task_reassignment Task "string option"
| Global_node_health_degraded string GlobalNodeHealth
| Global_node_health GlobalNodeHealth
| Global_node_failover GlobalNodeFailover
| Sync_request "Task list" "PeerInfo list"

section \<open>Configuration (config.ts)\<close>

text \<open>
  \<open>config.env\<close> is read from the environment at start-up; the operations take it as a
  parameter. \<open>default_config\<close> holds the defaults written in config.ts.
\<close>

record EnvConfig =
  regionalTokenRequirement :: real
  globalTokenRequirement :: real
  maxTaskDuration :: real
  minTaskDuration :: real
  maxNodesPerTask :: int
  taskTimeout :: int
  replicationFactor :: nat

definition default_config :: EnvConfig where
  "default_config =
     \<lparr>regionalTokenRequirement = 1000, globalTokenRequirement = 5000,
      maxTaskDuration = 86400, minTaskDuration = 60, maxNodesPerTask = 100,
      taskTimeout = 3600, replicationFactor = 3\<rparr>"

section \<open>Task engine (ValidatorSystem.ts)\<close>

text \<open>
  The state of a \<open>ValidatorSystem\<close>. \<open>taskTimeouts\<close> maps a task id to the handle of its
  timer; \<open>timers\<close> is the runtime's table of armed timers (handle, and the task id its
  callback will pass to \<open>handleTaskTimeout\<close>), \<open>nextTimer\<close> the next fresh handle.
  \<open>sent\<close> records, in order, every message given to a socket's \<open>send\<close> that did not
  fail, with the socket's identity.
\<close>

record ValidatorSystem =
  globalValidators :: "(string \<times> ConnectedPeer) list"
  regionalValidators :: "(string \<times> (string \<times> ConnectedPeer) list) list"
  individualNodes :: "(string \<times> (string \<times> ConnectedPeer) list) list"
  activeTasks :: "(string \<times> Task) list"
  taskTimeouts :: "(string \<times> nat) list"
  rewardDistributions :: "(string \<times> (string \<times> real) list) list"
  timers :: "(nat \<times> string) list"
  nextTimer :: nat
  sent :: "(nat \<times> SignalingMessage) list"

definition cleanupTask :: "ValidatorSystem \<Rightarrow> string \<Rightarrow> ValidatorSystem" where
  "cleanupTask s tid =
     (let s1 = (case map_of (taskTimeouts s) tid of
                  None \<Rightarrow> s
                | Some h \<Rightarrow> s\<lparr>timers := AList.delete h (timers s),
                              taskTimeouts := AList.delete tid (taskTimeouts s)\<rparr>)
      in s1\<lparr>rewardDistributions := AList.delete tid (rewardDistributions s1)\<rparr>)"

definition handleTaskTimeout :: "ValidatorSystem \<Rightarrow> string \<Rightarrow> ValidatorSystem" where
  "handleTaskTimeout s tid =
     (case map_of (activeTasks s) tid of
        None \<Rightarrow> s
      | Some task \<Rightarrow>
          if state (status task) \<noteq> Pending then s
          else
            let task' = task\<lparr>status := (status task)
                           \<lparr>state := Failed,
                            error := Some ''Task timed out waiting for acceptance''\<rparr>\<rparr>
            in cleanupTask (s\<lparr>activeTasks := AList.update tid task' (activeTasks s)\<rparr>) tid)"

text \<open>
  A timer handle fires: the runtime drops the timer and runs its callback, which is
  \<open>handleTaskTimeout\<close> on the task id the callback closed over (\<open>setupTaskTimeout\<close>).
\<close>

definition fireTimer :: "ValidatorSystem \<Rightarrow> nat \<Rightarrow> ValidatorSystem" where
  "fireTimer s h =
     (case map_of (timers s) h of
        None \<Rightarrow> s
      | Some tid \<Rightarrow> handleTaskTimeout (s\<lparr>timers := AList.delete h (timers s)\<rparr>) tid)"

definition setupTaskTimeout :: "ValidatorSystem \<Rightarrow> Task \<Rightarrow> ValidatorSystem" where
  "setupTaskTimeout s task =
     s\<lparr>timers := AList.update (nextTimer s) (taskId task) (timers s),
       taskTimeouts := AList.update (taskId task) (nextTimer s) (taskTimeouts s),
       nextTimer := Suc (nextTimer s)\<rparr>"

definition handleNodeFailure :: "ValidatorSystem \<Rightarrow> string \<Rightarrow> string \<Rightarrow> ValidatorSystem" where
  "handleNodeFailure s tid nodeId =
     (case map_of (activeTasks s) tid of
        None \<Rightarrow> s
      | Some task \<Rightarrow>
          let st1 = (status task)
                \<lparr>assignedNodes := filter (\<lambda>i. i \<noteq> nodeId) (assignedNodes (status task)),
                 acceptedNodes := filter (\<lambda>i. i \<noteq> nodeId) (acceptedNodes (status task))\<rparr>
          in if length (assignedNodes st1) = 0
             then cleanupTask
                    (s\<lparr>activeTasks :=
                         AList.update tid
                           (task\<lparr>status := st1\<lparr>state := Failed,
                                                 error := Some ''All assigned nodes failed''\<rparr>\<rparr>)
                           (activeTasks s)\<rparr>) tid
             else s\<lparr>activeTasks := AList.update tid (task\<lparr>status := st1\<rparr>) (activeTasks s)\<rparr>)"

text \<open>
  The body of the \<open>forEach\<close> of \<open>removeNode\<close> for the entry stored under key \<open>k\<close>: the
  callback reads the task object of the entry and calls \<open>handleNodeFailure\<close> with that
  object's own \<open>taskId\<close>.
\<close>

definition removeNode_visit :: "string \<Rightarrow> string \<Rightarrow> ValidatorSystem \<Rightarrow> ValidatorSystem" where
  "removeNode_visit peer k s =
     (case map_of (activeTasks s) k of
        None \<Rightarrow> s
      | Some task \<Rightarrow>
          if peer \<in> set (assignedNodes (status task))
          then handleNodeFailure s (taskId task) peer else s)"

definition pool_delete ::
  "(string \<times> (string \<times> ConnectedPeer) list) list \<Rightarrow> string \<Rightarrow> string \<Rightarrow>
   (string \<times> (string \<times> ConnectedPeer) list) list" where
  "pool_delete pool reg peer =
     (case map_of pool reg of
        None \<Rightarrow> pool
      | Some m \<Rightarrow> AList.update reg (AList.delete peer m) pool)"

definition removeNode :: "ValidatorSystem \<Rightarrow> string \<Rightarrow> NodeType \<Rightarrow> string \<Rightarrow> ValidatorSystem" where
  "removeNode s peer ntype reg =
     (let s1 = fold (removeNode_visit peer) (map fst (activeTasks s)) s
      in case ntype of
           Global_node \<Rightarrow> s1\<lparr>globalValidators := AList.delete peer (globalValidators s1)\<rparr>
         | Regional_node \<Rightarrow>
             s1\<lparr>regionalValidators := pool_delete (regionalValidators s1) reg peer\<rparr>
         | Individual \<Rightarrow> s1\<lparr>individualNodes := pool_delete (individualNodes s1) reg peer\<rparr>)"

definition validateTaskRequirements :: "EnvConfig \<Rightarrow> Task \<Rightarrow> bool" where
  "validateTaskRequirements cfg task =
     (let tierReqs = TASK_TIER_REQUIREMENTS (type task)
      in minTier (requirements task) \<in> set (tiers tierReqs) \<and>
         total (reward task) \<ge> minReward tierReqs \<and>
         validatorShare (reward task) = validatorShare_req tierReqs \<and>
         estimatedDuration (requirements task) \<ge> minTaskDuration cfg \<and>
         estimatedDuration (requirements task) \<le> maxTaskDuration cfg \<and>
         maxNodes (requirements task) \<le> maxNodesPerTask cfg)"

text \<open>
  \<open>forwardMessage\<close> sends only on an open socket, and rethrows what \<open>send\<close> throws.
\<close>

definition forwardMessage ::
  "ValidatorSystem \<Rightarrow> ConnectedPeer \<Rightarrow> SignalingMessage \<Rightarrow> error option \<times> ValidatorSystem" where
  "forwardMessage s peer m =
     (if readyState_OPEN (ws peer)
      then (if send_fails (ws peer) then (Some (Error ''send failed''), s)
            else (None, s\<lparr>sent := sent s @ [(wsId (ws peer), m)]\<rparr>))
      else (None, s))"

text \<open>
  \<open>Array.prototype.sort\<close> is stable; with a comparator it is an insertion of every
  element before the first one it does not compare greater than.
\<close>

fun insert_by :: "('a \<Rightarrow> 'a \<Rightarrow> int) \<Rightarrow> 'a \<Rightarrow> 'a list \<Rightarrow> 'a list" where
  "insert_by cmp x [] = [x]"
| "insert_by cmp x (y # ys) = (if cmp x y \<le> 0 then x # y # ys else y # insert_by cmp x ys)"

definition js_sort :: "('a \<Rightarrow> 'a \<Rightarrow> int) \<Rightarrow> 'a list \<Rightarrow> 'a list" where
  "js_sort cmp xs = foldr (insert_by cmp) xs []"

definition compareValidators :: "ConnectedPeer \<Rightarrow> ConnectedPeer \<Rightarrow> int" where
  "compareValidators a b =
     (if int (activeTasks_n (status_p a)) - int (activeTasks_n (status_p b)) \<noteq> 0
      then int (activeTasks_n (status_p a)) - int (activeTasks_n (status_p b))
      else int (completedTasks (status_p b)) - int (completedTasks (status_p a)))"

definition selectRegionalValidator :: "ConnectedPeer list \<Rightarrow> ConnectedPeer option" where
  "selectRegionalValidator validators =
     (case js_sort compareValidators validators of [] \<Rightarrow> None | v # _ \<Rightarrow> Some v)"

fun broadcastRegions ::
  "Task \<Rightarrow> (string \<times> (string \<times> ConnectedPeer) list) list \<Rightarrow> ValidatorSystem \<Rightarrow>
   error option \<times> ValidatorSystem" where
  "broadcastRegions task [] s = (None, s)"
| "broadcastRegions task ((reg, validators) # rest) s =
     (let eligibleValidators = filter (\<lambda>v. online (status_p v)) (map snd validators)
      in if length eligibleValidators = 0 then broadcastRegions task rest s
         else case selectRegionalValidator eligibleValidators of
                None \<Rightarrow> broadcastRegions task rest s
              | Some targetValidator \<Rightarrow>
                  (case forwardMessage s targetValidator (Task_broadcast task) of
                     (Some e, s') \<Rightarrow> (Some e, s')
                   | (None, s') \<Rightarrow> broadcastRegions task rest s'))"

definition broadcastTask ::
  "EnvConfig \<Rightarrow> ValidatorSystem \<Rightarrow> Task \<Rightarrow> string \<Rightarrow> error option \<times> ValidatorSystem" where
  "broadcastTask cfg s task sourceGlobalValidator =
     (if \<not> validateTaskRequirements cfg task
      then (Some (Error ''Invalid task requirements''), s)
      else
        let s1 = s\<lparr>activeTasks := AList.update (taskId task) task (activeTasks s)\<rparr>;
            s2 = setupTaskTimeout s1 task
        in broadcastRegions task (regionalValidators s2) s2)"

fun getMaxTasksForTier :: "NodeTier \<Rightarrow> nat" where
  "getMaxTasksForTier Inference = 5"
| "getMaxTasksForTier Aggregator = 10"
| "getMaxTasksForTier Training = 15"
| "getMaxTasksForTier Feedback = 20"

text \<open>
  A resource floor or the GPU flag restricts only when it is present and truthy
  (\<open>requirements.minStorage && ...\<close>): \<open>undefined\<close>, \<open>0\<close> and \<open>false\<close> do not.
\<close>

definition isNodeEligibleForTask :: "ConnectedPeer \<Rightarrow> Task \<Rightarrow> bool" where
  "isNodeEligibleForTask node task =
     (let tier = nodeTier (info node);
          reqs = requirements task;
          res = resources (status_p node)
      in if tier \<notin> set (tiers (TASK_TIER_REQUIREMENTS (type task))) then False
         else if (case minStorage reqs of None \<Rightarrow> False | Some m \<Rightarrow> m \<noteq> 0 \<and> storage res < m)
           then False
         else if (case minMemory reqs of None \<Rightarrow> False | Some m \<Rightarrow> m \<noteq> 0 \<and> memory res < m)
           then False
         else if gpuRequired reqs = Some True \<and> tier \<notin> set [Training, Feedback] then False
         else if activeTasks_n (status_p node) \<ge> getMaxTasksForTier tier then False
         else True)"

definition calculateNodeReward :: "Task \<Rightarrow> nat \<Rightarrow> real" where
  "calculateNodeReward task nodeCount =
     (let totalNodeReward = total (reward task) * (1 - validatorShare (reward task) / 100)
      in totalNodeReward / real nodeCount)"

text \<open>\<open>xs.slice(0, k)\<close> for an integer \<open>k\<close>: a negative \<open>k\<close> counts from the end.\<close>

definition js_slice0 :: "'a list \<Rightarrow> int \<Rightarrow> 'a list" where
  "js_slice0 xs k = take (nat (if k < 0 then int (length xs) + k else k)) xs"

fun sendAssignments ::
  "Task \<Rightarrow> real \<Rightarrow> ConnectedPeer list \<Rightarrow> ValidatorSystem \<Rightarrow> error option \<times> ValidatorSystem"
  where
  "sendAssignments task rewardPerNode [] s = (None, s)"
| "sendAssignments task rewardPerNode (node # rest) s =
     (let assignmentMessage = Task_assignment
            (task\<lparr>reward := (reward task)\<lparr>perNode := rewardPerNode\<rparr>,
                  status := (status task)
                    \<lparr>assignedNodes := assignedNodes (status task) @ [peerId (info node)]\<rparr>\<rparr>)
      in case forwardMessage s node assignmentMessage of
           (Some e, s') \<Rightarrow> (Some e, s')
         | (None, s') \<Rightarrow> sendAssignments task rewardPerNode rest s')"

definition handleRegionalTaskDistribution ::
  "ValidatorSystem \<Rightarrow> Task \<Rightarrow> string \<Rightarrow> string \<Rightarrow> error option \<times> ValidatorSystem" where
  "handleRegionalTaskDistribution s task reg sourceValidator =
     (case map_of (individualNodes s) reg of
        None \<Rightarrow> (None, s)
      | Some nodes \<Rightarrow>
          let eligibleNodes =
                js_slice0 (filter (\<lambda>node. isNodeEligibleForTask node task) (map snd nodes))
                  (maxNodes (requirements task))
          in if length eligibleNodes = 0 then (None, s)
             else
               let rewardPerNode = calculateNodeReward task (length eligibleNodes)
               in case sendAssignments task rewardPerNode eligibleNodes s of
                    (Some e, s') \<Rightarrow> (Some e, s')
                  | (None, s') \<Rightarrow>
                      let task' = task\<lparr>status := (status task)
                            \<lparr>assignedNodes := assignedNodes (status task) @
                               map (\<lambda>n. peerId (info n)) eligibleNodes\<rparr>\<rparr>
                      in (None, s'\<lparr>activeTasks :=
                                     AList.update (taskId task') task' (activeTasks s')\<rparr>))"

definition handleTaskAcceptance ::
  "int \<Rightarrow> ValidatorSystem \<Rightarrow> string \<Rightarrow> string \<Rightarrow> ValidatorSystem" where
  "handleTaskAcceptance now s tid peer =
     (case map_of (activeTasks s) tid of
        None \<Rightarrow> s
      | Some task \<Rightarrow>
          let st1 = (status task)\<lparr>acceptedNodes := acceptedNodes (status task) @ [peer]\<rparr>;
              st2 = (if startTime st1 = None
                     then st1\<lparr>startTime := Some now, state := Processing\<rparr> else st1);
              s1 = s\<lparr>activeTasks := AList.update tid (task\<lparr>status := st2\<rparr>) (activeTasks s)\<rparr>
          in if map_of (rewardDistributions s1) tid = None
             then s1\<lparr>rewardDistributions := AList.update tid [] (rewardDistributions s1)\<rparr>
             else s1)"

text \<open>
  \<open>findPeer\<close>: the global pool by key, then the first regional validator, then the first
  individual node, with that peer id.
\<close>

definition findPeer :: "ValidatorSystem \<Rightarrow> string \<Rightarrow> ConnectedPeer option" where
  "findPeer s pid =
     (case map_of (globalValidators s) pid of
        Some p \<Rightarrow> Some p
      | None \<Rightarrow>
          (case find (\<lambda>p. peerId (info p) = pid)
                  (concat (map (\<lambda>m. map snd m) (map snd (regionalValidators s)))) of
             Some p \<Rightarrow> Some p
           | None \<Rightarrow>
               find (\<lambda>p. peerId (info p) = pid)
                 (concat (map (\<lambda>m. map snd m) (map snd (individualNodes s))))))"

definition getRegionalValidatorForNode :: "ValidatorSystem \<Rightarrow> string \<Rightarrow> ConnectedPeer option"
  where
  "getRegionalValidatorForNode s reg =
     (case map_of (regionalValidators s) reg of
        None \<Rightarrow> None
      | Some validators \<Rightarrow> (case map snd validators of [] \<Rightarrow> None | v # _ \<Rightarrow> Some v))"

text \<open>
  The callback of the \<open>forEach\<close> in \<open>getTaskValidators\<close>. \<open>validators.includes\<close> compares
  object identity; the model compares the peer records, which tell apart the objects the
  pools hold for different regions and for different node types.
\<close>

definition addRegionalValidator ::
  "ValidatorSystem \<Rightarrow> string \<Rightarrow> ConnectedPeer list \<Rightarrow> ConnectedPeer list" where
  "addRegionalValidator s nodeId validators =
     (case findPeer s nodeId of
        None \<Rightarrow> validators
      | Some nodePeer \<Rightarrow>
          (case getRegionalValidatorForNode s (region (info nodePeer)) of
             None \<Rightarrow> validators
           | Some regionalValidator \<Rightarrow>
               if regionalValidator \<notin> set validators then validators @ [regionalValidator]
               else validators))"

definition getTaskValidators :: "ValidatorSystem \<Rightarrow> Task \<Rightarrow> ConnectedPeer list" where
  "getTaskValidators s task =
     (let validators = (case map_of (globalValidators s) (submitter task) of
                          None \<Rightarrow> [] | Some g \<Rightarrow> [g])
      in fold (addRegionalValidator s) (assignedNodes (status task)) validators)"

text \<open>
  The reward of one completion report: \<open>reward.perNode\<close> of the stored task, reduced when
  the report is late. \<open>duration\<close> is in seconds. Without a \<open>startTime\<close> the duration is
  \<open>NaN\<close>, the comparison is false and nothing is deducted. The numbers are exact reals;
  the model stands for tasks with \<open>estimatedDuration \<noteq> 0\<close>, as every task that passed
  \<open>validateTaskRequirements\<close> with a positive \<open>minTaskDuration\<close> is: at 0 the source divides
  by zero and the penalty is \<open>Infinity\<close> or \<open>NaN\<close>, which a real number does not hold.
\<close>

definition completionReward :: "Task \<Rightarrow> int \<Rightarrow> real" where
  "completionReward task now =
     (case startTime (status task) of
        None \<Rightarrow> perNode (reward task)
      | Some start \<Rightarrow>
          let duration = real_of_int (now - start) / 1000
          in if duration > estimatedDuration (requirements task)
             then
               let penalty = (duration - estimatedDuration (requirements task)) /
                             estimatedDuration (requirements task) * penaltyRate (reward task)
               in perNode (reward task) * (1 - min penalty 1)
             else perNode (reward task))"

text \<open>
  The reward map of a task after \<open>finalizeTask\<close> has written the validator shares into it:
  one \<open>set\<close> per validator, under the validator's peer id.
\<close>

definition distributeValidatorRewards ::
  "ValidatorSystem \<Rightarrow> Task \<Rightarrow> (string \<times> real) list \<Rightarrow> (string \<times> real) list" where
  "distributeValidatorRewards s task taskRewards =
     (let validatorReward = total (reward task) * (validatorShare (reward task) / 100);
          validators = getTaskValidators s task;
          share = validatorReward / real (length validators)
      in fold (\<lambda>validator m. AList.update (peerId (info validator)) share m)
           validators taskRewards)"

fun sendRewards ::
  "string \<Rightarrow> (string \<times> real) list \<Rightarrow> ValidatorSystem \<Rightarrow> error option \<times> ValidatorSystem" where
  "sendRewards tid [] s = (None, s)"
| "sendRewards tid ((pid, r) # rest) s =
     (case findPeer s pid of
        None \<Rightarrow> sendRewards tid rest s
      | Some peer \<Rightarrow>
          (case forwardMessage s peer (Reward_distribution tid r) of
             (Some e, s') \<Rightarrow> (Some e, s')
           | (None, s') \<Rightarrow> sendRewards tid rest s'))"

text \<open>
  \<open>finalizeTask\<close> mutates the task object it is given; \<open>key\<close> is the key of the active
  table under which that object is stored. It marks the task completed, writes the validator
  shares into the reward map of the task (it fails when the task has none), sends every
  entry of the map to its peer, and ends with \<open>cleanupTask\<close>, which deletes the map. A
  failing send leaves the function before the clean-up.
\<close>

definition finalizeTask ::
  "ValidatorSystem \<Rightarrow> string \<Rightarrow> Task \<Rightarrow> int \<Rightarrow> error option \<times> ValidatorSystem" where
  "finalizeTask s key task completion =
     (let task' = task\<lparr>status := (status task)
                   \<lparr>state := Completed, completionTime := Some completion\<rparr>\<rparr>;
          s1 = s\<lparr>activeTasks := AList.update key task' (activeTasks s)\<rparr>
      in case map_of (rewardDistributions s1) (taskId task') of
           None \<Rightarrow> (Some (TypeError ''taskRewards is undefined''), s1)
         | Some taskRewards \<Rightarrow>
             let taskRewards' = distributeValidatorRewards s1 task' taskRewards;
                 s2 = s1\<lparr>rewardDistributions :=
                          AList.update (taskId task') taskRewards' (rewardDistributions s1)\<rparr>
             in case sendRewards (taskId task') taskRewards' s2 of
                  (Some e, s3) \<Rightarrow> (Some e, s3)
                | (None, s3) \<Rightarrow> (None, cleanupTask s3 (taskId task')))"

text \<open>
  \<open>completionLedger\<close> is the reward map of the task after \<open>handleTaskCompletion\<close> has
  stored the reward of the reporting peer; the task is finalized when the map has as many
  entries as the task has accepted nodes.
\<close>

definition completionLedger ::
  "int \<Rightarrow> Task \<Rightarrow> string \<Rightarrow> (string \<times> real) list \<Rightarrow> (string \<times> real) list" where
  "completionLedger now task peer taskRewards =
     AList.update peer (completionReward task now) taskRewards"

definition handleTaskCompletion ::
  "int \<Rightarrow> ValidatorSystem \<Rightarrow> string \<Rightarrow> string \<Rightarrow> error option \<times> ValidatorSystem" where
  "handleTaskCompletion now s tid peer =
     (case map_of (activeTasks s) tid of
        None \<Rightarrow> (None, s)
      | Some task \<Rightarrow>
          (case map_of (rewardDistributions s) tid of
             None \<Rightarrow> (Some (TypeError ''taskRewards is undefined''), s)
           | Some taskRewards \<Rightarrow>
               let taskRewards' = completionLedger now task peer taskRewards;
                   s1 = s\<lparr>rewardDistributions :=
                            AList.update tid taskRewards' (rewardDistributions s)\<rparr>
               in if length taskRewards' = length (acceptedNodes (status task))
                  then finalizeTask s1 tid task now
                  else (None, s1)))"



definition retryTask ::
  "EnvConfig \<Rightarrow> int \<Rightarrow> ValidatorSystem \<Rightarrow> string \<Rightarrow> (error + bool) \<times> ValidatorSystem" where
  "retryTask cfg now s tid =
     (case map_of (activeTasks s) tid of
        None \<Rightarrow> (Inr False, s)
      | Some task \<Rightarrow>
          if state (status task) \<noteq> Failed then (Inr False, s)
          else
            let task' = task\<lparr>status := \<lparr>state = Pending, assignedNodes = [], acceptedNodes = [],
                                        progress = 0, startTime = None, completionTime = None,
                                        error = None\<rparr>,
                              timestamp := now\<rparr>;
                s1 = s\<lparr>activeTasks := AList.update tid task' (activeTasks s)\<rparr>
            in case broadcastTask cfg s1 task' (submitter task') of
                 (Some e, s2) \<Rightarrow> (Inl e, s2)
               | (None, s2) \<Rightarrow> (Inr True, s2))"

definition addNode :: "ValidatorSystem \<Rightarrow> ConnectedPeer \<Rightarrow> ValidatorSystem" where
  "addNode s peer =
     (let pid = peerId (info peer); reg = region (info peer);
          s1 = (if map_of (regionalValidators s) reg = None
                then s\<lparr>regionalValidators := AList.update reg [] (regionalValidators s)\<rparr>
                else s);
          s2 = (if map_of (individualNodes s1) reg = None
                then s1\<lparr>individualNodes := AList.update reg [] (individualNodes s1)\<rparr>
                else s1)
      in case nodeType (info peer) of
           Global_node \<Rightarrow> s2\<lparr>globalValidators := AList.update pid peer (globalValidators s2)\<rparr>
         | Regional_node \<Rightarrow>
             s2\<lparr>regionalValidators :=
                  AList.update reg
                    (AList.update pid peer (case map_of (regionalValidators s2) reg of
                                              None \<Rightarrow> [] | Some m \<Rightarrow> m))
                    (regionalValidators s2)\<rparr>
         | Individual \<Rightarrow>
             s2\<lparr>individualNodes :=
                  AList.update reg
                    (AList.update pid peer (case map_of (individualNodes s2) reg of
                                              None \<Rightarrow> [] | Some m \<Rightarrow> m))
                    (individualNodes s2)\<rparr>)"

section \<open>Connection and message router (signalingServer.ts)\<close>

text \<open>
  A region keeps the ids of its members and of its validators (two \<open>Set<string>\<close>). Its
  rolling metrics are read-only aggregates pushed to the metrics collector; they and the
  collector are not part of the model, and \<open>network_state\<close> carries the peer list only.
\<close>

record RegionInfo =
  region_id :: string
  region_validators :: "string set"
  region_peers :: "string set"
  region_lastUpdate :: int

record SignalingServer =
  peers :: "(string \<times> ConnectedPeer) list"
  regions :: "(string \<times> RegionInfo) list"
  validatorSystem :: ValidatorSystem
  sent_ss :: "(nat \<times> SignalingMessage) list"

text \<open>
  A \<open>join\<close> message as it arrives: every field may be missing. \<open>!x\<close> holds for a
  missing field and for the empty string.
\<close>

record JoinMessage =
  m_peerId :: "string option"
  m_nodeType :: "NodeType option"
  m_nodeTier :: "NodeTier option"
  m_tokenBalance :: "real option"
  m_region :: "string option"

definition falsy_string :: "string option \<Rightarrow> bool" where
  "falsy_string x = (case x of None \<Rightarrow> True | Some v \<Rightarrow> v = [])"

text \<open>\<open>sendMessage\<close> of the router sends only on an open socket and swallows a failing send.\<close>

definition sendMessage ::
  "SignalingServer \<Rightarrow> ExtendedWebSocket \<Rightarrow> SignalingMessage \<Rightarrow> SignalingServer" where
  "sendMessage s sock m =
     (if readyState_OPEN sock
      then (if send_fails sock then s else s\<lparr>sent_ss := sent_ss s @ [(wsId sock, m)]\<rparr>)
      else s)"

definition sendError :: "SignalingServer \<Rightarrow> ExtendedWebSocket \<Rightarrow> string \<Rightarrow> SignalingServer" where
  "sendError s sock message = sendMessage s sock (Error_message message)"

definition validateValidatorEligibility :: "EnvConfig \<Rightarrow> NodeTier \<Rightarrow> NodeType \<Rightarrow> real \<Rightarrow> bool"
  where
  "validateValidatorEligibility cfg tier validatorType balance =
     (if validatorType = Regional_node
      then tier \<in> set [Aggregator, Training] \<and> balance \<ge> regionalTokenRequirement cfg
      else if validatorType = Global_node
      then tier \<in> set [Training, Feedback] \<and> balance \<ge> globalTokenRequirement cfg
      else False)"

definition updateRegionInfo ::
  "int \<Rightarrow> SignalingServer \<Rightarrow> string \<Rightarrow> string \<Rightarrow> NodeType \<Rightarrow> SignalingServer" where
  "updateRegionInfo now s reg pid ntype =
     (let s1 = (if map_of (regions s) reg = None
                then s\<lparr>regions := AList.update reg
                         \<lparr>region_id = reg, region_validators = {}, region_peers = {},
                          region_lastUpdate = now\<rparr> (regions s)\<rparr>
                else s)
      in case map_of (regions s1) reg of
           None \<Rightarrow> s1
         | Some regionInfo \<Rightarrow>
             let r1 = regionInfo\<lparr>region_peers := insert pid (region_peers regionInfo)\<rparr>;
                 r2 = (if ntype \<noteq> Individual
                       then r1\<lparr>region_validators := insert pid (region_validators r1)\<rparr>
                       else r1)
             in s1\<lparr>regions := AList.update reg (r2\<lparr>region_lastUpdate := now\<rparr>) (regions s1)\<rparr>)"

text \<open>
  \<open>broadcastToPeerGroup\<close> sends to the other peers of the region whose socket is open;
  it does not catch a failing send, which ends the loop and is thrown.
\<close>

fun broadcastSend ::
  "SignalingMessage \<Rightarrow> ConnectedPeer list \<Rightarrow> SignalingServer \<Rightarrow>
   error option \<times> SignalingServer" where
  "broadcastSend m [] s = (None, s)"
| "broadcastSend m (peer # rest) s =
     (if readyState_OPEN (ws peer)
      then (if send_fails (ws peer) then (Some (Error ''send failed''), s)
            else broadcastSend m rest (s\<lparr>sent_ss := sent_ss s @ [(wsId (ws peer), m)]\<rparr>))
      else broadcastSend m rest s)"

definition broadcastToPeerGroup ::
  "SignalingServer \<Rightarrow> PeerInfo \<Rightarrow> SignalingMessage \<Rightarrow> error option \<times> SignalingServer" where
  "broadcastToPeerGroup s peerInfo m =
     (let relevantPeers = filter (\<lambda>p. region (info p) = region peerInfo \<and>
                                        peerId (info p) \<noteq> peerId peerInfo)
                            (map snd (peers s))
      in broadcastSend m relevantPeers s)"

definition handleJoin ::
  "EnvConfig \<Rightarrow> int \<Rightarrow> SignalingServer \<Rightarrow> ExtendedWebSocket \<Rightarrow> JoinMessage \<Rightarrow>
   error option \<times> SignalingServer"
  where
  "handleJoin cfg now s sock message =
     (let balance = (case m_tokenBalance message of None \<Rightarrow> 0 | Some b \<Rightarrow> b)
      in if falsy_string (m_peerId message) \<or> m_nodeType message = None \<or>
            m_nodeTier message = None \<or> falsy_string (m_region message)
         then (None, sendError s sock ''Invalid join message format'')
         else
           case (m_peerId message, m_nodeType message, m_nodeTier message, m_region message) of
             (Some pid, Some ntype, Some tier, Some reg) \<Rightarrow>
               if ntype \<noteq> Individual \<and> \<not> validateValidatorEligibility cfg tier ntype balance
               then (None, sendError s sock ''Insufficient tier or tokens for validator role'')
               else
                 let peerInfo = \<lparr>peerId = pid, nodeType = ntype, nodeTier = tier, region = reg,
                                 tokenBalance = balance\<rparr>;
                     peer = \<lparr>ws = sock, info = peerInfo, joinTime = now, lastActivity = now,
                             status_p = \<lparr>online = True, connections = 0,
                                resources = \<lparr>cpu = 0, memory = 0, storage = 0, bandwidth = 0\<rparr>,
                                earnings = 0, activeTasks_n = 0, completedTasks = 0\<rparr>\<rparr>;
                     s1 = s\<lparr>peers := AList.update pid peer (peers s),
                            validatorSystem := addNode (validatorSystem s) peer\<rparr>;
                     s2 = updateRegionInfo now s1 reg pid ntype;
                     s3 = sendMessage s2 sock
                            (Network_state (map (\<lambda>p. info p) (map snd (peers s2))))
                 in broadcastToPeerGroup s3 peerInfo (Peer_joined peerInfo)
           | _ \<Rightarrow> (None, sendError s sock ''Invalid join message format''))"

section \<open>DHT (network/DHTNetwork.ts)\<close>

text \<open>
  Stored values are JSON texts. \<open>metadata\<close> is free-form in the source; the model keeps
  the region and the direct-connection flag.
\<close>

record DHTNode =
  node_id :: string
  address :: string
  lastSeen :: int
  metadata_region :: "string option"
  metadata_directConnection :: "bool option"

datatype DHTMessageType =
  FindNode_msg string
| FindValue_msg string
| Store_msg string string
| Leave_msg string

record DHTResponse =
  response_node :: "DHTNode option"
  response_value :: "string option"

text \<open>
  \<open>sent_dht\<close> records, in order, every message given to the \<open>send\<close> of a node's
  connection, with the node id. What the network answers is not part of the state: the
  operations take a function \<open>net\<close> that says, for a node id and a message that was sent,
  whether the round trip yields a response or fails (time-out, unparsable answer).
\<close>

record DHTNetwork =
  nodes :: "(string \<times> DHTNode) list"
  data :: "(string \<times> string) list"
  directConnections :: "(string \<times> DHTNode) list"
  activeConnections :: "(string \<times> ExtendedWebSocket) list"
  connected :: bool
  sent_dht :: "(string \<times> DHTMessageType) list"

type_synonym dht_net = "string \<Rightarrow> DHTMessageType \<Rightarrow> error + DHTResponse"

definition sendMessage_dht ::
  "dht_net \<Rightarrow> DHTNetwork \<Rightarrow> DHTNode \<Rightarrow> DHTMessageType \<Rightarrow> (error + DHTResponse) \<times> DHTNetwork"
  where
  "sendMessage_dht net s node message =
     (case map_of (activeConnections s) (node_id node) of
        None \<Rightarrow> (Inl (Error ''WebSocket not open''), s)
      | Some sock \<Rightarrow>
          if \<not> readyState_OPEN sock then (Inl (Error ''WebSocket not open''), s)
          else if send_fails sock then (Inl (Error ''send failed''), s)
          else (net (node_id node) message,
                s\<lparr>sent_dht := sent_dht s @ [(node_id node, message)]\<rparr>))"

text \<open>The loop of \<open>findValue\<close> over the routing table: the first answer with a value wins.\<close>

fun findValue_ask ::
  "dht_net \<Rightarrow> string \<Rightarrow> DHTNode list \<Rightarrow> DHTNetwork \<Rightarrow> string option \<times> DHTNetwork" where
  "findValue_ask net key [] s = (None, s)"
| "findValue_ask net key (node # rest) s =
     (case sendMessage_dht net s node (FindValue_msg key) of
        (Inl e, s') \<Rightarrow> findValue_ask net key rest s'
      | (Inr response, s') \<Rightarrow>
          (case response_value response of
             Some v \<Rightarrow> (Some v, s'\<lparr>data := AList.update key v (data s')\<rparr>)
           | None \<Rightarrow> findValue_ask net key rest s'))"

definition findValue ::
  "dht_net \<Rightarrow> DHTNetwork \<Rightarrow> string \<Rightarrow> (error + string option) \<times> DHTNetwork" where
  "findValue net s key =
     (if \<not> connected s then (Inl (Error ''Not connected to DHT network''), s)
      else case map_of (data s) key of
             Some v \<Rightarrow> (Inr (Some v), s)
           | None \<Rightarrow>
               (case findValue_ask net key (map snd (nodes s)) s of
                  (r, s') \<Rightarrow> (Inr r, s')))"

text \<open>
  \<open>store\<close> starts one \<open>sendMessage\<close> per target, in order, and catches every rejection;
  the responses are not looked at.
\<close>

fun replicate_to ::
  "dht_net \<Rightarrow> DHTMessageType \<Rightarrow> DHTNode list \<Rightarrow> DHTNetwork \<Rightarrow> DHTNetwork" where
  "replicate_to net message [] s = s"
| "replicate_to net message (node # rest) s =
     replicate_to net message rest (snd (sendMessage_dht net s node message))"

definition store_targets :: "EnvConfig \<Rightarrow> DHTNetwork \<Rightarrow> DHTNode list" where
  "store_targets cfg s = take (replicationFactor cfg) (map snd (nodes s))"

definition store_dht ::
  "EnvConfig \<Rightarrow> dht_net \<Rightarrow> DHTNetwork \<Rightarrow> string \<Rightarrow> string \<Rightarrow> error option \<times> DHTNetwork"
  where
  "store_dht cfg net s key v =
     (if \<not> connected s then (Some (Error ''Not connected to DHT network''), s)
      else
        let s1 = s\<lparr>data := AList.update key v (data s)\<rparr>
        in (None, replicate_to net (Store_msg key v) (store_targets cfg s1) s1))"

section \<open>Global node coordinator (GlobalNodeCoordinator.ts)\<close>

record GlobalNodeCoordinator =
  globalNodes :: "(string \<times> ConnectedPeer) list"
  healthMetrics :: "(string \<times> GlobalNodeHealth) list"
  failoverHistory :: "GlobalNodeFailover list"
  activeTasks_gc :: "(string \<times> Task) list"
  sent_gc :: "(nat \<times> SignalingMessage) list"

text \<open>
  \<open>forwardMessage\<close> of the coordinator rejects on a socket that is not open and on a
  failing send.
\<close>

definition forwardMessage_gc ::
  "GlobalNodeCoordinator \<Rightarrow> ConnectedPeer \<Rightarrow> SignalingMessage \<Rightarrow>
   error option \<times> GlobalNodeCoordinator" where
  "forwardMessage_gc s peer m =
     (if \<not> readyState_OPEN (ws peer) then (Some (Error ''WebSocket not open''), s)
      else if send_fails (ws peer) then (Some (Error ''send failed''), s)
      else (None, s\<lparr>sent_gc := sent_gc s @ [(wsId (ws peer), m)]\<rparr>))"

definition isNodeHealthy :: "GlobalNodeCoordinator \<Rightarrow> string \<Rightarrow> bool" where
  "isNodeHealthy s nid =
     (case map_of (healthMetrics s) nid of None \<Rightarrow> False | Some h \<Rightarrow> status_h h = Active)"

text \<open>
  \<open>broadcastToGlobalNodes\<close> forwards to every healthy node and waits for all sends to
  settle; a rejected send changes nothing.
\<close>

definition broadcastToGlobalNodes ::
  "GlobalNodeCoordinator \<Rightarrow> SignalingMessage \<Rightarrow> GlobalNodeCoordinator" where
  "broadcastToGlobalNodes s m =
     fold (\<lambda>node s'. snd (forwardMessage_gc s' node m))
       (filter (\<lambda>node. isNodeHealthy s (peerId (info node))) (map snd (globalNodes s))) s"

definition getNodeTasks :: "GlobalNodeCoordinator \<Rightarrow> string \<Rightarrow> Task list" where
  "getNodeTasks s nid =
     filter (\<lambda>task. globalValidator task = Some nid) (map snd (activeTasks_gc s))"

text \<open>The \<open>task_reassignment\<close> message that \<open>reassignTask\<close> builds.\<close>

definition reassignmentMessage ::
  "GlobalNodeCoordinator \<Rightarrow> Task \<Rightarrow> ConnectedPeer \<Rightarrow> SignalingMessage" where
  "reassignmentMessage s task newNode =
     Task_reassignment
       (task\<lparr>globalValidator := Some (peerId (info newNode)),
             backupValidators := Some
               (map (\<lambda>n. peerId (info n))
                  (filter (\<lambda>n. peerId (info n) \<noteq> peerId (info newNode))
                     (map snd (globalNodes s))))\<rparr>)
       (globalValidator task)"

definition reassignTask ::
  "GlobalNodeCoordinator \<Rightarrow> Task \<Rightarrow> ConnectedPeer \<Rightarrow> error option \<times> GlobalNodeCoordinator"
  where
  "reassignTask s task newNode = forwardMessage_gc s newNode (reassignmentMessage s task newNode)"

fun reassignTasks ::
  "Task list \<Rightarrow> ConnectedPeer \<Rightarrow> GlobalNodeCoordinator \<Rightarrow> error option \<times> GlobalNodeCoordinator"
  where
  "reassignTasks [] newNode s = (None, s)"
| "reassignTasks (task # rest) newNode s =
     (case reassignTask s task newNode of
        (Some e, s') \<Rightarrow> (Some e, s')
      | (None, s') \<Rightarrow> reassignTasks rest newNode s')"

definition handleNodeFailover ::
  "int \<Rightarrow> GlobalNodeCoordinator \<Rightarrow> string \<Rightarrow> error option \<times> GlobalNodeCoordinator" where
  "handleNodeFailover now s nid =
     (case map_of (globalNodes s) nid of
        None \<Rightarrow> (None, s)
      | Some failedNode \<Rightarrow>
          (case filter (\<lambda>node. peerId (info node) \<noteq> nid \<and>
                               (case map_of (healthMetrics s) (peerId (info node)) of
                                  None \<Rightarrow> False | Some h \<Rightarrow> status_h h = Active))
                  (map snd (globalNodes s)) of
             [] \<Rightarrow> (None, s)
           | backupNode # _ \<Rightarrow>
               let affected = getNodeTasks s nid;
                   failover = \<lparr>failedNodeId = nid, backupNodeId = peerId (info backupNode),
                               affectedTasks = map taskId affected, timestamp_f = now,
                               reason = ''Node health degraded below acceptable threshold''\<rparr>
               in case reassignTasks affected backupNode s of
                    (Some e, s') \<Rightarrow> (Some e, s')
                  | (None, s') \<Rightarrow>
                      (None, broadcastToGlobalNodes
                               (s'\<lparr>failoverHistory := failoverHistory s' @ [failover]\<rparr>)
                               (Global_node_failover failover))))"

definition removeGlobalNode ::
  "int \<Rightarrow> GlobalNodeCoordinator \<Rightarrow> string \<Rightarrow> error option \<times> GlobalNodeCoordinator" where
  "removeGlobalNode now s pid =
     (case map_of (globalNodes s) pid of
        None \<Rightarrow> (None, s)
      | Some node \<Rightarrow>
          let s1 = (case map_of (healthMetrics s) pid of
                      None \<Rightarrow> s
                    | Some health \<Rightarrow>
                        s\<lparr>healthMetrics := AList.update pid
                             (health\<lparr>status_h := Offline,
                                     issues := issues health @
                                       [''Node disconnected from network'']\<rparr>)
                             (healthMetrics s)\<rparr>)
          in case handleNodeFailover now s1 pid of
               (Some e, s2) \<Rightarrow> (Some e, s2)
             | (None, s2) \<Rightarrow>
                 (None, s2\<lparr>globalNodes := AList.delete pid (globalNodes s2),
                           healthMetrics := AList.delete pid (healthMetrics s2)\<rparr>))"

text \<open>
  \<open>addGlobalNode\<close> registers the peer, gives it a fresh health record and synchronizes:
  a \<open>sync_request\<close> with all tasks of the coordinator and all tracked validators goes to
  every healthy node.
\<close>

definition initializeHealthMetrics ::
  "int \<Rightarrow> GlobalNodeCoordinator \<Rightarrow> string \<Rightarrow> GlobalNodeCoordinator" where
  "initializeHealthMetrics now s nid =
     s\<lparr>healthMetrics := AList.update nid
          \<lparr>nodeId_h = nid, status_h = Active, lastCheck = now,
           metrics_h = \<lparr>responsiveness = 100, taskCompletion = 100, networkLatency = 0,
                        resourceUtilization = 0\<rparr>,
           issues = []\<rparr>
          (healthMetrics s)\<rparr>"

definition synchronizeWithGlobalNodes :: "GlobalNodeCoordinator \<Rightarrow> GlobalNodeCoordinator" where
  "synchronizeWithGlobalNodes s =
     (if length (globalNodes s) = 0 then s
      else broadcastToGlobalNodes s
             (Sync_request (map snd (activeTasks_gc s))
                (map (\<lambda>n. info n) (map snd (globalNodes s)))))"

definition addGlobalNode ::
  "int \<Rightarrow> GlobalNodeCoordinator \<Rightarrow> ConnectedPeer \<Rightarrow> GlobalNodeCoordinator" where
  "addGlobalNode now s peer =
     synchronizeWithGlobalNodes
       (initializeHealthMetrics now
          (s\<lparr>globalNodes := AList.update (peerId (info peer)) peer (globalNodes s)\<rparr>)
          (peerId (info peer)))"

definition getHealthyGlobalNodes :: "GlobalNodeCoordinator \<Rightarrow> PeerInfo list" where
  "getHealthyGlobalNodes s =
     map (\<lambda>node. info node)
       (filter (\<lambda>node. isNodeHealthy s (peerId (info node))) (map snd (globalNodes s)))"

definition determineNodeStatus :: "HealthMetrics \<Rightarrow> GlobalNodeStatus" where
  "determineNodeStatus m =
     (if responsiveness m < 50 \<or> taskCompletion m < 50 then Failing
      else if responsiveness m < 80 \<or> taskCompletion m < 80 then Degraded
      else Active)"

text \<open>
  \<open>getNodeTaskMetrics\<close>: the completion rate is \<open>completed / (active + completed) * 100 || 100\<close>,
  so both \<open>NaN\<close> (no task at all) and \<open>0\<close> (nothing completed) become \<open>100\<close>.
\<close>

definition getNodeTaskMetrics :: "GlobalNodeCoordinator \<Rightarrow> string \<Rightarrow> real \<times> real" where
  "getNodeTaskMetrics s nid =
     (case map_of (globalNodes s) nid of
        None \<Rightarrow> (0, 0)
      | Some node \<Rightarrow>
          ((if completedTasks (status_p node) = 0 then 100
            else real (completedTasks (status_p node)) /
                 real (activeTasks_n (status_p node) + completedTasks (status_p node)) * 100),
           (cpu (resources (status_p node)) + memory (resources (status_p node))) / 2))"

text \<open>
  \<open>assessNodeHealth\<close>. \<open>ping\<close> says, for a peer id, whether the probe of an open socket
  is answered and after how many milliseconds. The health record is the object held in
  \<open>healthMetrics\<close>, so its update is visible there at once.
\<close>

definition assessNodeHealth ::
  "int \<Rightarrow> (string \<Rightarrow> int option) \<Rightarrow> GlobalNodeCoordinator \<Rightarrow> ConnectedPeer \<Rightarrow>
   GlobalNodeHealth \<times> GlobalNodeCoordinator" where
  "assessNodeHealth now ping s peer =
     (let pid = peerId (info peer);
          health = (case map_of (healthMetrics s) pid of
                      Some h \<Rightarrow> h
                    | None \<Rightarrow> \<lparr>nodeId_h = pid, status_h = Active, lastCheck = now,
                                metrics_h = \<lparr>responsiveness = 100, taskCompletion = 100,
                                             networkLatency = 0, resourceUtilization = 0\<rparr>,
                                issues = []\<rparr>);
          h1 = (case (if readyState_OPEN (ws peer) then ping pid else None) of
                  Some latency \<Rightarrow>
                    health\<lparr>metrics_h := (metrics_h health)
                              \<lparr>responsiveness := 100, networkLatency := real_of_int latency\<rparr>\<rparr>
                | None \<Rightarrow>
                    health\<lparr>metrics_h := (metrics_h health)
                              \<lparr>responsiveness := max 0 (responsiveness (metrics_h health) - 20)\<rparr>,
                           issues := issues health @ [''Node not responding to ping'']\<rparr>);
          taskMetrics = getNodeTaskMetrics s pid;
          h2 = h1\<lparr>metrics_h := (metrics_h h1)
                     \<lparr>taskCompletion := fst taskMetrics,
                      resourceUtilization := snd taskMetrics\<rparr>\<rparr>;
          h3 = h2\<lparr>status_h := determineNodeStatus (metrics_h h2), lastCheck := now\<rparr>
      in (h3, if map_of (healthMetrics s) pid = None then s
              else s\<lparr>healthMetrics := AList.update pid h3 (healthMetrics s)\<rparr>))"

definition handleDegradedNode :: "GlobalNodeCoordinator \<Rightarrow> string \<Rightarrow> GlobalNodeCoordinator"
  where
  "handleDegradedNode s nid =
     (case map_of (globalNodes s) nid of
        None \<Rightarrow> s
      | Some node \<Rightarrow>
          (case map_of (healthMetrics s) nid of
             None \<Rightarrow> s
           | Some healthStatus \<Rightarrow>
               broadcastToGlobalNodes s (Global_node_health_degraded nid healthStatus)))"

definition checkNode ::
  "int \<Rightarrow> (string \<Rightarrow> int option) \<Rightarrow> string \<times> ConnectedPeer \<Rightarrow> GlobalNodeCoordinator \<Rightarrow>
   GlobalNodeCoordinator" where
  "checkNode now ping entry s =
     (case assessNodeHealth now ping s (snd entry) of
        (health, s1) \<Rightarrow>
          let s2 = s1\<lparr>healthMetrics := AList.update (fst entry) health (healthMetrics s1)\<rparr>;
              s3 = (if status_h health = Failing then handleDegradedNode s2 (fst entry) else s2)
          in broadcastToGlobalNodes s3 (Global_node_health health))"

definition checkGlobalNodesHealth ::
  "int \<Rightarrow> (string \<Rightarrow> int option) \<Rightarrow> GlobalNodeCoordinator \<Rightarrow> GlobalNodeCoordinator" where
  "checkGlobalNodesHealth now ping s = fold (checkNode now ping) (globalNodes s) s"

section \<open>Auxiliary notions and a sample network\<close>

text \<open>
  Every \<open>set\<close> on the active table stores a task under its own \<open>taskId\<close>; the code relies
  on it whenever it passes \<open>task.taskId\<close> on to look the task up again.
\<close>

definition tasks_keyed :: "ValidatorSystem \<Rightarrow> bool" where
  "tasks_keyed s = (\<forall>(k, t) \<in> set (activeTasks s). taskId t = k)"

text \<open>What \<open>handleNodeFailure\<close> does to one task that lists the node.\<close>

definition nodeFailed :: "string \<Rightarrow> Task \<Rightarrow> Task" where
  "nodeFailed peer task =
     (if peer \<in> set (assignedNodes (status task)) then
        (let st1 = (status task)
                \<lparr>assignedNodes := filter (\<lambda>i. i \<noteq> peer) (assignedNodes (status task)),
                 acceptedNodes := filter (\<lambda>i. i \<noteq> peer) (acceptedNodes (status task))\<rparr>
         in if assignedNodes st1 = []
            then task\<lparr>status := st1\<lparr>state := Failed,
                                      error := Some ''All assigned nodes failed''\<rparr>\<rparr>
            else task\<lparr>status := st1\<rparr>)
      else task)"

text \<open>
  A sample network: the global validator \<open>gA\<close>, the regional validator \<open>rv1\<close> and the
  workers \<open>n1\<close>, \<open>n2\<close>, all in region \<open>eu\<close>; a \<open>train\<close> task \<open>t1\<close> of 200 tokens
  submitted by \<open>gA\<close>, with an estimated duration of 100 seconds.
\<close>

definition ex_ws :: "nat \<Rightarrow> ExtendedWebSocket" where
  "ex_ws n = \<lparr>wsId = n, readyState_OPEN = True, send_fails = False\<rparr>"

definition ex_peer ::
  "nat \<Rightarrow> string \<Rightarrow> NodeType \<Rightarrow> NodeTier \<Rightarrow> string \<Rightarrow> real \<Rightarrow> ConnectedPeer" where
  "ex_peer n pid ntype tier reg bal =
     \<lparr>ws = ex_ws n,
      info = \<lparr>peerId = pid, nodeType = ntype, nodeTier = tier, region = reg,
              tokenBalance = bal\<rparr>,
      joinTime = 0, lastActivity = 0,
      status_p = \<lparr>online = True, connections = 0,
                  resources = \<lparr>cpu = 0, memory = 0, storage = 0, bandwidth = 0\<rparr>,
                  earnings = 0, activeTasks_n = 0, completedTasks = 0\<rparr>\<rparr>"

definition ex_empty :: ValidatorSystem where
  "ex_empty = \<lparr>globalValidators = [], regionalValidators = [], individualNodes = [],
               activeTasks = [], taskTimeouts = [], rewardDistributions = [], timers = [],
               nextTimer = 0, sent = []\<rparr>"

definition ex_task :: "real \<Rightarrow> real \<Rightarrow> Task" where
  "ex_task share pn =
     \<lparr>taskId = ''t1'', type = Train,
      requirements = \<lparr>minTier = Training, minStorage = None, minMemory = None,
                      gpuRequired = None, priority = Medium, estimatedDuration = 100,
                      maxNodes = 2\<rparr>,
      reward = \<lparr>total = 200, perNode = pn, validatorShare = share, deadline = 0,
                penaltyRate = 1 / 2\<rparr>,
      status = \<lparr>state = Pending, assignedNodes = [], acceptedNodes = [], progress = 0,
                startTime = None, completionTime = None, error = None\<rparr>,
      timestamp = 0, expiry = 0, submitter = ''gA'', globalValidator = None,
      backupValidators = None\<rparr>"

definition ex_net :: ValidatorSystem where
  "ex_net = addNode (addNode (addNode (addNode ex_empty
       (ex_peer 1 ''gA'' Global_node Training ''eu'' 5000))
       (ex_peer 2 ''rv1'' Regional_node Aggregator ''eu'' 1000))
       (ex_peer 3 ''n1'' Individual Training ''eu'' 0))
       (ex_peer 4 ''n2'' Individual Training ''eu'' 0)"

text \<open>The task is broadcast, distributed in \<open>eu\<close>, and accepted by both workers.\<close>

definition ex_broadcast :: "real \<Rightarrow> ValidatorSystem" where
  "ex_broadcast pn = snd (broadcastTask default_config ex_net (ex_task 10 pn) ''gA'')"

definition ex_distributed :: "real \<Rightarrow> ValidatorSystem" where
  "ex_distributed pn =
     snd (handleRegionalTaskDistribution (ex_broadcast pn) (ex_task 10 pn) ''eu'' ''rv1'')"

definition ex_accepted :: "real \<Rightarrow> ValidatorSystem" where
  "ex_accepted pn =
     handleTaskAcceptance 1000 (handleTaskAcceptance 0 (ex_distributed pn) ''t1'' ''n1'')
       ''t1'' ''n2''"

text \<open>An empty router, and a \<open>regional_node\<close> that asks to join with 500 tokens.\<close>

definition ex_server :: SignalingServer where
  "ex_server = \<lparr>peers = [], regions = [], validatorSystem = ex_empty, sent_ss = []\<rparr>"

definition ex_join :: JoinMessage where
  "ex_join = \<lparr>m_peerId = Some ''rv9'', m_nodeType = Some Regional_node,
              m_nodeTier = Some Aggregator, m_tokenBalance = Some 500,
              m_region = Some ''eu''\<rparr>"

text \<open>
  A node of the routing table is deliverable when its connection is open and the send on
  it does not fail.
\<close>

definition deliverable :: "DHTNetwork \<Rightarrow> DHTNode \<Rightarrow> bool" where
  "deliverable s node =
     (case map_of (activeConnections s) (node_id node) of
        None \<Rightarrow> False
      | Some sock \<Rightarrow> readyState_OPEN sock \<and> \<not> send_fails sock)"

text \<open>
  A connected DHT with four known nodes: the connection to \<open>a\<close> is closed, \<open>b\<close> has none,
  the send to \<open>c\<close> fails, \<open>d\<close> is fine; and a network on which every round trip times out.
\<close>

definition ex_dht_node :: "string \<Rightarrow> DHTNode" where
  "ex_dht_node i = \<lparr>node_id = i, address = ''ws://'' @ i, lastSeen = 0,
                    metadata_region = None, metadata_directConnection = None\<rparr>"

definition ex_dht :: DHTNetwork where
  "ex_dht = \<lparr>nodes = [(''a'', ex_dht_node ''a''), (''b'', ex_dht_node ''b''),
                      (''c'', ex_dht_node ''c''), (''d'', ex_dht_node ''d'')],
             data = [], directConnections = [],
             activeConnections =
               [(''a'', \<lparr>wsId = 1, readyState_OPEN = False, send_fails = False\<rparr>),
                (''c'', \<lparr>wsId = 3, readyState_OPEN = True, send_fails = True\<rparr>),
                (''d'', \<lparr>wsId = 4, readyState_OPEN = True, send_fails = False\<rparr>)],
             connected = True, sent_dht = []\<rparr>"

definition ex_dht_net :: dht_net where
  "ex_dht_net i m = Inl (Error ''Message timeout'')"


definition validatorShareOf :: "ValidatorSystem \<Rightarrow> Task \<Rightarrow> real" where
  "validatorShareOf s task =
     total (reward task) * (validatorShare (reward task) / 100) /
       real (length (getTaskValidators s task))"

definition ledger_wf :: "ValidatorSystem \<Rightarrow> bool" where
  "ledger_wf s = (distinct (map fst (rewardDistributions s)) \<and>
                  (\<forall>(k, m) \<in> set (rewardDistributions s). distinct (map fst m)))"

text \<open>
  The \<open>reward_distribution\<close> messages that the last loop of \<open>finalizeTask\<close> puts on the
  sockets for the entries of a reward map when no send fails: one for every entry whose
  peer is found and has an open socket, in the order of the map.
\<close>

definition rewardMessageFor ::
  "ValidatorSystem \<Rightarrow> string \<Rightarrow> string \<times> real \<Rightarrow> (nat \<times> SignalingMessage) list" where
  "rewardMessageFor s tid entry =
     (case findPeer s (fst entry) of
        None \<Rightarrow> []
      | Some peer \<Rightarrow>
          if readyState_OPEN (ws peer)
          then [(wsId (ws peer), Reward_distribution tid (snd entry))] else [])"

definition rewardMessagesFor ::
  "ValidatorSystem \<Rightarrow> string \<Rightarrow> (string \<times> real) list \<Rightarrow> (nat \<times> SignalingMessage) list" where
  "rewardMessagesFor s tid m = concat (map (rewardMessageFor s tid) m)"





text \<open>
  The reward messages and the per-node rewards announced in the assignment messages among
  the messages sent, and the balance the settlement of a task is expected to satisfy: the
  rewards recorded for the reporting nodes plus the validator pool
  \<open>total * validatorShare / 100\<close> make up \<open>total\<close>. \<open>rewardsPaid\<close> adds up the
  reward messages.
\<close>

definition rewardMessages :: "(nat \<times> SignalingMessage) list \<Rightarrow> (nat \<times> string \<times> real) list"
  where
  "rewardMessages ms =
     concat (map (\<lambda>(w, m). case m of Reward_distribution tid r \<Rightarrow> [(w, tid, r)] | _ \<Rightarrow> []) ms)"

definition assignedRewards :: "(nat \<times> SignalingMessage) list \<Rightarrow> (nat \<times> string \<times> real) list"
  where
  "assignedRewards ms =
     concat (map (\<lambda>(w, m). case m of Task_assignment t \<Rightarrow> [(w, taskId t, perNode (reward t))]
                           | _ \<Rightarrow> []) ms)"

definition rewardsPaid :: "(nat \<times> SignalingMessage) list \<Rightarrow> real" where
  "rewardsPaid ms = sum_list (map (\<lambda>(w, tid, r). r) (rewardMessages ms))"

definition rewards_conserved :: "Task \<Rightarrow> (string \<times> real) list \<Rightarrow> bool" where
  "rewards_conserved task ledger =
     (sum_list (map snd ledger) +
        total (reward task) * (validatorShare (reward task) / 100) = total (reward task))"

text \<open>
  In the sample network the task is distributed to \<open>n1\<close> and \<open>n2\<close>. In \<open>ex_one_accepted\<close>
  the task was declared with \<open>perNode = 90\<close> and only \<open>n1\<close> has accepted it;
  \<open>ex_stored_one\<close> is the task as stored then. In \<open>ex_settled pn\<close> the task was declared
  with \<open>perNode = pn\<close>, both workers have accepted it, \<open>n1\<close> has reported completion after
  50 seconds and \<open>n2\<close> after 60.
\<close>

definition ex_one_accepted :: ValidatorSystem where
  "ex_one_accepted = handleTaskAcceptance 0 (ex_distributed 90) ''t1'' ''n1''"

definition ex_stored_one :: Task where
  "ex_stored_one = (ex_task 10 90)
     \<lparr>status := \<lparr>state = Processing, assignedNodes = [''n1'', ''n2''],
                 acceptedNodes = [''n1''], progress = 0, startTime = Some 0,
                 completionTime = None, error = None\<rparr>\<rparr>"

definition ex_settled :: "real \<Rightarrow> error option \<times> ValidatorSystem" where
  "ex_settled pn =
     handleTaskCompletion 60000
       (snd (handleTaskCompletion 50000 (ex_accepted pn) ''t1'' ''n1'')) ''t1'' ''n2''"

text \<open>
  For the failover of a node: the candidates for backup, in the order of the table, and
  the peers whose socket takes a message.
\<close>

definition backupCandidates :: "GlobalNodeCoordinator \<Rightarrow> string \<Rightarrow> ConnectedPeer list" where
  "backupCandidates s nid =
     filter (\<lambda>node. peerId (info node) \<noteq> nid \<and> isNodeHealthy s (peerId (info node)))
       (map snd (globalNodes s))"

definition sock_ok :: "ConnectedPeer \<Rightarrow> bool" where
  "sock_ok peer = (readyState_OPEN (ws peer) \<and> \<not> send_fails (ws peer))"

definition failoverRecord :: "int \<Rightarrow> GlobalNodeCoordinator \<Rightarrow> string \<Rightarrow> ConnectedPeer \<Rightarrow>
  GlobalNodeFailover" where
  "failoverRecord now s nid backupNode =
     \<lparr>failedNodeId = nid, backupNodeId = peerId (info backupNode),
      affectedTasks = map taskId (getNodeTasks s nid), timestamp_f = now,
      reason = ''Node health degraded below acceptable threshold''\<rparr>"

text \<open>
  A coordinator to which the global validators \<open>gA\<close> and \<open>gB\<close> were added. From then on
  \<open>gA\<close> does not answer the probe of the health check, \<open>gB\<close> answers after 5
  milliseconds; \<open>ex_gc_checked\<close> is the coordinator after three health checks.
  \<open>failoverMessages\<close> are the messages of a failover among the messages sent: the
  reassignments and the failover events.
\<close>

definition failoverMessages ::
  "(nat \<times> SignalingMessage) list \<Rightarrow> (nat \<times> SignalingMessage) list" where
  "failoverMessages ms =
     filter (\<lambda>(w, m). case m of Global_node_failover f \<Rightarrow> True
                         | Task_reassignment t p \<Rightarrow> True | _ \<Rightarrow> False) ms"

definition ex_gc_initial :: GlobalNodeCoordinator where
  "ex_gc_initial = \<lparr>globalNodes = [], healthMetrics = [], failoverHistory = [],
                    activeTasks_gc = [], sent_gc = []\<rparr>"

definition ex_gc :: GlobalNodeCoordinator where
  "ex_gc = addGlobalNode 0
             (addGlobalNode 0 ex_gc_initial (ex_peer 1 ''gA'' Global_node Training ''eu'' 5000))
             (ex_peer 2 ''gB'' Global_node Training ''us'' 5000)"

definition ex_ping :: "string \<Rightarrow> int option" where
  "ex_ping pid = (if pid = ''gA'' then None else Some 5)"

definition ex_gc_checked :: GlobalNodeCoordinator where
  "ex_gc_checked =
     checkGlobalNodesHealth 3000 ex_ping
       (checkGlobalNodesHealth 2000 ex_ping (checkGlobalNodesHealth 1000 ex_ping ex_gc))"

text \<open>The two table invariants of the task engine, taken together.\<close>

definition engine_ok :: "ValidatorSystem \<Rightarrow> bool" where
  "engine_ok s = (tasks_keyed s \<and> ledger_wf s)"

text \<open>
  The states the task engine can be in: it starts with an empty active table and an empty
  ledger, and every public operation and every timer takes it to the next state.
\<close>

inductive reachable :: "EnvConfig \<Rightarrow> ValidatorSystem \<Rightarrow> bool" for cfg where
  start: "activeTasks s = [] \<Longrightarrow> rewardDistributions s = [] \<Longrightarrow> reachable cfg s"
| add: "reachable cfg s \<Longrightarrow> reachable cfg (addNode s peer)"
| remove: "reachable cfg s \<Longrightarrow> reachable cfg (removeNode s peer ntype reg)"
| broadcast: "reachable cfg s \<Longrightarrow> reachable cfg (snd (broadcastTask cfg s task src))"
| distribute:
    "reachable cfg s \<Longrightarrow> reachable cfg (snd (handleRegionalTaskDistribution s task reg src))"
| accept: "reachable cfg s \<Longrightarrow> reachable cfg (handleTaskAcceptance now s tid peer)"
| complete: "reachable cfg s \<Longrightarrow> reachable cfg (snd (handleTaskCompletion now s tid peer))"
| timeout: "reachable cfg s \<Longrightarrow> reachable cfg (fireTimer s h)"
| retry: "reachable cfg s \<Longrightarrow> reachable cfg (snd (retryTask cfg now s tid))"

section \<open>Verified properties\<close>

lemmas ex_defs =
  ex_accepted_def ex_distributed_def ex_broadcast_def ex_net_def ex_task_def ex_peer_def
  ex_ws_def ex_empty_def addNode_def default_config_def broadcastTask_def
  validateTaskRequirements_def setupTaskTimeout_def selectRegionalValidator_def js_sort_def
  compareValidators_def forwardMessage_def handleRegionalTaskDistribution_def
  isNodeEligibleForTask_def js_slice0_def calculateNodeReward_def handleTaskAcceptance_def
  Let_def

subsection \<open>Facts about the active table\<close>

lemma activeTasks_cleanupTask [simp]: "activeTasks (cleanupTask s tid) = activeTasks s"
  by (simp add: cleanupTask_def Let_def split: option.splits)

lemma tasks_keyed_cleanupTask [simp]: "tasks_keyed (cleanupTask s tid) = tasks_keyed s"
  by (simp add: tasks_keyed_def)

lemma tasks_keyed_lookup:
  "tasks_keyed s \<Longrightarrow> map_of (activeTasks s) k = Some t \<Longrightarrow> taskId t = k"
  by (auto simp: tasks_keyed_def dest: map_of_SomeD)

lemma set_update_subset: "set (AList.update k v al) \<subseteq> insert (k, v) (set al)"
  by (induct al) auto

lemma tasks_keyed_update:
  assumes "tasks_keyed s" "taskId t' = k'"
  shows "tasks_keyed (s\<lparr>activeTasks := AList.update k' t' (activeTasks s)\<rparr>)"
  using assms set_update_subset[of k' t' "activeTasks s"] by (auto simp: tasks_keyed_def)

subsection \<open>Submission\<close>

text \<open>
  C2. A task whose declared validator share differs from the share of its type's policy,
  or whose minimum tier is not among the policy's tiers, whose total reward is below the
  policy's minimum, whose estimated duration is outside the configured bounds, or whose
  maximum node count exceeds the configured bound, makes \<open>broadcastTask\<close> throw
  \<open>Invalid task requirements\<close> and leaves the whole engine state as it was: no entry in
  the active table, no timer.
\<close>

theorem broadcastTask_rejects_invalid:
  assumes "validatorShare (reward task) \<noteq> validatorShare_req (TASK_TIER_REQUIREMENTS (type task))
           \<or> minTier (requirements task) \<notin> set (tiers (TASK_TIER_REQUIREMENTS (type task)))
           \<or> total (reward task) < minReward (TASK_TIER_REQUIREMENTS (type task))
           \<or> estimatedDuration (requirements task) < minTaskDuration cfg
           \<or> estimatedDuration (requirements task) > maxTaskDuration cfg
           \<or> maxNodes (requirements task) > maxNodesPerTask cfg"
  shows "broadcastTask cfg s task src = (Some (Error ''Invalid task requirements''), s)"
  using assms by (auto simp add: broadcastTask_def validateTaskRequirements_def Let_def)

theorem broadcastTask_rejects_invalid_witness:
  "validatorShare (reward (ex_task 20 90)) \<noteq>
     validatorShare_req (TASK_TIER_REQUIREMENTS (type (ex_task 20 90))) \<and>
   broadcastTask default_config ex_net (ex_task 20 90) ''gA'' =
     (Some (Error ''Invalid task requirements''), ex_net) \<and>
   map_of (activeTasks ex_net) ''t1'' = None \<and> timers ex_net = []"
  using broadcastTask_rejects_invalid [of "ex_task 20 90" default_config ex_net "''gA''"]
  by (simp add: ex_defs)

subsection \<open>Acceptance time-out\<close>

text \<open>
  C5. When the time-out callback of a task runs, a task that is still pending becomes
  failed with the error \<open>Task timed out waiting for acceptance\<close>; for a task in any other
  state the callback changes nothing at all.
\<close>

theorem handleTaskTimeout_pending_iff:
  "map_of (activeTasks s) tid = Some task \<Longrightarrow>
   (state (status task) = Pending \<longrightarrow>
      (\<exists>task'. map_of (activeTasks (handleTaskTimeout s tid)) tid = Some task' \<and>
         state (status task') = Failed \<and>
         error (status task') = Some ''Task timed out waiting for acceptance'')) \<and>
   (state (status task) \<noteq> Pending \<longrightarrow> handleTaskTimeout s tid = s)"
  by (auto simp add: handleTaskTimeout_def cleanupTask_def Let_def AList.update_conv'
      split: option.splits)

theorem handleTaskTimeout_pending_iff_witness:
  "(\<exists>task. map_of (activeTasks (ex_broadcast 90)) ''t1'' = Some task \<and>
      state (status task) = Pending) \<and>
   (\<exists>task'. map_of (activeTasks (handleTaskTimeout (ex_broadcast 90) ''t1'')) ''t1'' =
        Some task' \<and> state (status task') = Failed \<and>
        error (status task') = Some ''Task timed out waiting for acceptance'') \<and>
   (\<exists>task. map_of (activeTasks (ex_accepted 90)) ''t1'' = Some task \<and>
      state (status task) = Processing) \<and>
   handleTaskTimeout (ex_accepted 90) ''t1'' = ex_accepted 90"
proof -
  have p: "map_of (activeTasks (ex_broadcast 90)) ''t1'' = Some (ex_task 10 90)"
    by (simp add: ex_defs)
  have q: "\<exists>task. map_of (activeTasks (ex_accepted 90)) ''t1'' = Some task \<and>
      state (status task) = Processing"
    by (simp add: ex_defs)
  then obtain task where t: "map_of (activeTasks (ex_accepted 90)) ''t1'' = Some task"
    and st: "state (status task) = Processing" by blast
  have pend: "state (status (ex_task 10 90)) = Pending" by (simp add: ex_task_def)
  show ?thesis
    using handleTaskTimeout_pending_iff [OF p] handleTaskTimeout_pending_iff [OF t] p q pend st
    by auto
qed

subsection \<open>Node removal\<close>

lemma taskId_nodeFailed [simp]: "taskId (nodeFailed peer t) = taskId t"
  by (simp add: nodeFailed_def Let_def)

lemma nodeFailed_idem [simp]: "nodeFailed peer (nodeFailed peer t) = nodeFailed peer t"
  by (simp add: nodeFailed_def Let_def)

lemma visit_lookup:
  assumes "tasks_keyed s"
  shows "map_of (activeTasks (removeNode_visit peer k s)) k' =
           (if k' = k then map_option (nodeFailed peer) (map_of (activeTasks s) k)
            else map_of (activeTasks s) k')"
proof (cases "map_of (activeTasks s) k")
  case None
  then show ?thesis by (simp add: removeNode_visit_def)
next
  case (Some t)
  then have tk: "taskId t = k" using assms tasks_keyed_lookup by blast
  show ?thesis using Some tk
    by (simp add: removeNode_visit_def handleNodeFailure_def nodeFailed_def Let_def
        AList.update_conv')
qed

lemma handleNodeFailure_keyed:
  assumes "tasks_keyed s"
  shows "tasks_keyed (handleNodeFailure s tid n)"
proof (cases "map_of (activeTasks s) tid")
  case None
  then show ?thesis using assms by (simp add: handleNodeFailure_def)
next
  case (Some t)
  have tk: "taskId t = tid" using assms Some by (rule tasks_keyed_lookup)
  show ?thesis using Some tk
    by (simp add: handleNodeFailure_def Let_def tasks_keyed_update[OF assms])
qed

lemma visit_keyed:
  assumes "tasks_keyed s"
  shows "tasks_keyed (removeNode_visit peer k s)"
  using assms by (simp add: removeNode_visit_def handleNodeFailure_keyed split: option.splits)

lemma fold_visit_lookup:
  "tasks_keyed s \<Longrightarrow>
   map_of (activeTasks (fold (removeNode_visit peer) ks s)) k' =
     (if k' \<in> set ks then map_option (nodeFailed peer) (map_of (activeTasks s) k')
      else map_of (activeTasks s) k')"
proof (induction ks arbitrary: s)
  case Nil
  then show ?case by simp
next
  case (Cons k ks)
  have keyed: "tasks_keyed (removeNode_visit peer k s)" using Cons.prems by (rule visit_keyed)
  show ?case
    using Cons.IH[OF keyed] visit_lookup[OF Cons.prems, of peer k k']
    by (cases "map_of (activeTasks s) k") (auto simp: option.map_comp comp_def)
qed

lemma removeNode_lookup:
  assumes "tasks_keyed s"
  shows "map_of (activeTasks (removeNode s peer ntype reg)) tid =
           map_option (nodeFailed peer) (map_of (activeTasks s) tid)"
proof -
  have "map_of (activeTasks (fold (removeNode_visit peer) (map fst (activeTasks s)) s)) tid =
           map_option (nodeFailed peer) (map_of (activeTasks s) tid)"
    using fold_visit_lookup[OF assms, of peer "map fst (activeTasks s)" tid]
    by (auto simp: map_of_eq_None_iff[symmetric] simp del: map_of_eq_None_iff)
  then show ?thesis
    by (cases ntype) (simp_all add: removeNode_def Let_def)
qed

text \<open>
  C4. When a node is removed while a task lists it in \<open>assignedNodes\<close>, the node
  disappears from the task's \<open>assignedNodes\<close> and \<open>acceptedNodes\<close>; if no assigned node
  is left the task is failed with the error \<open>All assigned nodes failed\<close>, and otherwise
  its state and error are what they were. The active table is assumed to hold every task
  under its own id, as it does in every reachable state of the engine.
\<close>

theorem removeNode_task:
  assumes "tasks_keyed s"
    and "map_of (activeTasks s) tid = Some task"
    and "peer \<in> set (assignedNodes (status task))"
  shows "\<exists>task'. map_of (activeTasks (removeNode s peer ntype reg)) tid = Some task' \<and>
           assignedNodes (status task') =
             filter (\<lambda>i. i \<noteq> peer) (assignedNodes (status task)) \<and>
           acceptedNodes (status task') =
             filter (\<lambda>i. i \<noteq> peer) (acceptedNodes (status task)) \<and>
           (if assignedNodes (status task') = []
            then state (status task') = Failed \<and>
                 error (status task') = Some ''All assigned nodes failed''
            else state (status task') = state (status task) \<and>
                 error (status task') = error (status task))"
  using removeNode_lookup[OF assms(1), of peer ntype reg tid] assms(2,3)
  by (simp add: nodeFailed_def Let_def)

theorem removeNode_task_witness:
  "tasks_keyed (ex_accepted 90) \<and>
   (\<exists>task. map_of (activeTasks (ex_accepted 90)) ''t1'' = Some task \<and>
      ''n1'' \<in> set (assignedNodes (status task)) \<and> state (status task) = Processing) \<and>
   (\<exists>task'. map_of (activeTasks (removeNode (ex_accepted 90) ''n1'' Individual ''eu'')) ''t1'' =
        Some task' \<and>
      assignedNodes (status task') = [''n2''] \<and> acceptedNodes (status task') = [''n2''] \<and>
      state (status task') = Processing) \<and>
   (\<exists>task'. map_of (activeTasks (removeNode (removeNode (ex_accepted 90) ''n1'' Individual ''eu'')
                 ''n2'' Individual ''eu'')) ''t1'' = Some task' \<and>
      assignedNodes (status task') = [] \<and> acceptedNodes (status task') = [] \<and>
      state (status task') = Failed \<and>
      error (status task') = Some ''All assigned nodes failed'')"
proof -
  let ?s1 = "removeNode (ex_accepted 90) ''n1'' Individual ''eu''"
  let ?t1 = "(ex_task 10 90)\<lparr>status := \<lparr>state = Processing, assignedNodes = [''n1'', ''n2''],
              acceptedNodes = [''n1'', ''n2''], progress = 0, startTime = Some 0,
              completionTime = None, error = None\<rparr>\<rparr>"
  let ?t2 = "(ex_task 10 90)\<lparr>status := \<lparr>state = Processing, assignedNodes = [''n2''],
              acceptedNodes = [''n2''], progress = 0, startTime = Some 0,
              completionTime = None, error = None\<rparr>\<rparr>"
  have k: "tasks_keyed (ex_accepted 90)"
    by (simp add: tasks_keyed_def ex_defs)
  have l: "map_of (activeTasks (ex_accepted 90)) ''t1'' = Some ?t1"
    by (simp add: ex_defs)
  have k2: "tasks_keyed ?s1"
    by (simp add: tasks_keyed_def ex_defs removeNode_def removeNode_visit_def
        handleNodeFailure_def pool_delete_def cleanupTask_def)
  have l2: "map_of (activeTasks ?s1) ''t1'' = Some ?t2"
    by (simp add: ex_defs removeNode_def removeNode_visit_def
        handleNodeFailure_def pool_delete_def cleanupTask_def)
  show ?thesis
    using removeNode_task [OF k l, of "''n1''" Individual "''eu''"]
      removeNode_task [OF k2 l2, of "''n2''" Individual "''eu''"] k l
    by auto
qed

subsection \<open>Completion rewards\<close>

text \<open>
  C7. For a completion report on a stored task with a reward map, with per-node reward
  \<open>p\<close>, estimated duration \<open>e > 0\<close> and \<open>d\<close> seconds elapsed since \<open>startTime\<close>: the
  reward \<open>r\<close> that \<open>handleTaskCompletion\<close> stores for the reporting peer is \<open>p\<close> when
  \<open>d \<le> e\<close>, and \<open>p * (1 - min 1 ((d - e) / e * penaltyRate))\<close> when \<open>d > e\<close>. The factor
  is never negative, so neither is the reward of a non-negative \<open>p\<close>.
\<close>

theorem completion_reward_penalty:
  assumes "map_of (activeTasks s) tid = Some task"
    and "map_of (rewardDistributions s) tid = Some taskRewards"
    and "startTime (status task) = Some start"
    and "e = estimatedDuration (requirements task)" and "0 < e"
    and "d = real_of_int (now - start) / 1000"
    and "p = perNode (reward task)"
    and "r = completionReward task now"
  shows "(d \<le> e \<longrightarrow> r = p) \<and>
         (d > e \<longrightarrow> r = p * (1 - min 1 ((d - e) / e * penaltyRate (reward task)))) \<and>
         0 \<le> 1 - min 1 ((d - e) / e * penaltyRate (reward task)) \<and>
         (0 \<le> p \<longrightarrow> 0 \<le> r) \<and>
         map_of (completionLedger now task peer taskRewards) peer = Some r \<and>
         handleTaskCompletion now s tid peer =
           (let s1 = s\<lparr>rewardDistributions :=
                        AList.update tid (completionLedger now task peer taskRewards)
                          (rewardDistributions s)\<rparr>
            in if length (completionLedger now task peer taskRewards) =
                  length (acceptedNodes (status task))
               then finalizeTask s1 tid task now else (None, s1))"
proof -
  let ?f = "1 - min 1 ((d - e) / e * penaltyRate (reward task))"
  have r0: "completionReward task now =
      (if real_of_int (now - start) / 1000 > estimatedDuration (requirements task)
       then perNode (reward task) *
            (1 - min 1 ((real_of_int (now - start) / 1000 - estimatedDuration (requirements task))
                         / estimatedDuration (requirements task) * penaltyRate (reward task)))
       else perNode (reward task))"
    by (simp only: completionReward_def assms(3) option.case Let_def min.commute)
  have r: "r = (if d > e then p * ?f else p)"
    unfolding assms(4,6,7,8) by (rule r0)
  have f: "0 \<le> ?f" by simp
  have nonneg: "0 \<le> p \<longrightarrow> 0 \<le> r"
    using r f by (simp add: mult_nonneg_nonneg)
  have led: "map_of (completionLedger now task peer taskRewards) peer = Some r"
    using assms(8) by (simp add: completionLedger_def AList.update_conv')
  have step: "handleTaskCompletion now s tid peer =
           (let s1 = s\<lparr>rewardDistributions :=
                        AList.update tid (completionLedger now task peer taskRewards)
                          (rewardDistributions s)\<rparr>
            in if length (completionLedger now task peer taskRewards) =
                  length (acceptedNodes (status task))
               then finalizeTask s1 tid task now else (None, s1))"
    using assms(1,2) by (simp add: handleTaskCompletion_def Let_def)
  show ?thesis using r f nonneg led step by simp
qed


theorem completion_reward_penalty_witness:
  "(\<exists>task taskRewards.
      map_of (activeTasks (ex_accepted 90)) ''t1'' = Some task \<and>
      map_of (rewardDistributions (ex_accepted 90)) ''t1'' = Some taskRewards \<and>
      startTime (status task) = Some 0 \<and> estimatedDuration (requirements task) = 100 \<and>
      perNode (reward task) = 90 \<and>
      completionReward task 50000 = 90 \<and>
      completionReward task 160000 = 90 * (1 - min 1 ((160 - 100) / 100 * (1 / 2))) \<and>
      completionReward task 160000 = 63 \<and>
      completionReward task 900000 = 0)"
proof -
  let ?t = "(ex_task 10 90)\<lparr>status := \<lparr>state = Processing, assignedNodes = [''n1'', ''n2''],
              acceptedNodes = [''n1'', ''n2''], progress = 0, startTime = Some 0,
              completionTime = None, error = None\<rparr>\<rparr>"
  have l: "map_of (activeTasks (ex_accepted 90)) ''t1'' = Some ?t"
    by (simp add: ex_defs)
  have m: "map_of (rewardDistributions (ex_accepted 90)) ''t1'' = Some []"
    by (simp add: ex_defs)
  have st: "startTime (status ?t) = Some 0" by simp
  have e: "100 = estimatedDuration (requirements ?t)" by (simp add: ex_task_def)
  have p: "90 = perNode (reward ?t)" by (simp add: ex_task_def)
  have rate: "penaltyRate (reward ?t) = 1 / 2" by (simp add: ex_task_def)
  have a: "completionReward ?t 50000 = 90"
    using completion_reward_penalty [OF l m st e _ _ p refl, of "50" 50000 "''n1''"] by simp
  have b: "completionReward ?t 160000 = 90 * (1 - min 1 ((160 - 100) / 100 * (1 / 2)))"
    using completion_reward_penalty [OF l m st e _ _ p refl, of "160" 160000 "''n1''"] rate
    by simp
  have c: "completionReward ?t 900000 = 0"
    using completion_reward_penalty [OF l m st e _ _ p refl, of "900" 900000 "''n1''"] rate
    by simp
  show ?thesis using l m st e p a b c by simp
qed

subsection \<open>Joining\<close>

lemma handleJoin_ineligible:
  assumes "m_nodeType message = Some ntype" "ntype \<noteq> Individual"
    and "\<forall>tier. m_nodeTier message = Some tier \<longrightarrow>
           \<not> validateValidatorEligibility cfg tier ntype
               (case m_tokenBalance message of None \<Rightarrow> 0 | Some b \<Rightarrow> b)"
  shows "handleJoin cfg now s sock message =
           (None, sendError s sock ''Invalid join message format'') \<or>
         handleJoin cfg now s sock message =
           (None, sendError s sock ''Insufficient tier or tokens for validator role'')"
proof (cases "falsy_string (m_peerId message) \<or> m_nodeTier message = None \<or>
              falsy_string (m_region message)")
  case True
  then show ?thesis by (auto simp add: handleJoin_def Let_def)
next
  case False
  then obtain pid tier reg where v: "m_peerId message = Some pid" "m_nodeTier message = Some tier"
    "m_region message = Some reg"
    by (auto simp: falsy_string_def split: option.splits)
  have "\<not> validateValidatorEligibility cfg tier ntype
               (case m_tokenBalance message of None \<Rightarrow> 0 | Some b \<Rightarrow> b)"
    using assms(3) v(2) by blast
  then show ?thesis using False v assms(1,2)
    by (simp add: handleJoin_def Let_def)
qed

lemma sendError_registries:
  "peers (sendError s sock txt) = peers s \<and>
   regions (sendError s sock txt) = regions s \<and>
   validatorSystem (sendError s sock txt) = validatorSystem s \<and>
   sent_ss (sendError s sock txt) =
     (if readyState_OPEN sock \<and> \<not> send_fails sock
      then sent_ss s @ [(wsId sock, Error_message txt)] else sent_ss s)"
  by (simp add: sendError_def sendMessage_def)

text \<open>
  C6. A join from a \<open>regional_node\<close> whose tier is not aggregator or training or whose
  balance (0 when absent) is below the regional requirement, and a join from a
  \<open>global_node\<close> whose tier is not training or feedback or whose balance is below the
  global requirement, only sends an error message to the joining socket (when it is open
  and the send does not fail): the peer registry, the regions and the pools of the task
  engine stay as they were.
\<close>

theorem handleJoin_rejects_ineligible:
  assumes "(m_nodeType message = Some Regional_node \<and>
            (m_nodeTier message \<notin> {Some Aggregator, Some Training} \<or>
             (case m_tokenBalance message of None \<Rightarrow> 0 | Some b \<Rightarrow> b)
               < regionalTokenRequirement cfg)) \<or>
           (m_nodeType message = Some Global_node \<and>
            (m_nodeTier message \<notin> {Some Training, Some Feedback} \<or>
             (case m_tokenBalance message of None \<Rightarrow> 0 | Some b \<Rightarrow> b)
               < globalTokenRequirement cfg))"
  shows "\<exists>txt. handleJoin cfg now s sock message = (None, sendError s sock txt) \<and>
           peers (sendError s sock txt) = peers s \<and>
           regions (sendError s sock txt) = regions s \<and>
           validatorSystem (sendError s sock txt) = validatorSystem s \<and>
           sent_ss (sendError s sock txt) =
             (if readyState_OPEN sock \<and> \<not> send_fails sock
              then sent_ss s @ [(wsId sock, Error_message txt)] else sent_ss s)"
proof -
  have "\<exists>ntype. m_nodeType message = Some ntype \<and> ntype \<noteq> Individual \<and>
     (\<forall>tier. m_nodeTier message = Some tier \<longrightarrow>
           \<not> validateValidatorEligibility cfg tier ntype
               (case m_tokenBalance message of None \<Rightarrow> 0 | Some b \<Rightarrow> b))"
    using assms by (auto simp add: validateValidatorEligibility_def)
  then obtain ntype where nt: "m_nodeType message = Some ntype" "ntype \<noteq> Individual"
    and inel: "\<forall>tier. m_nodeTier message = Some tier \<longrightarrow>
           \<not> validateValidatorEligibility cfg tier ntype
               (case m_tokenBalance message of None \<Rightarrow> 0 | Some b \<Rightarrow> b)"
    by blast
  from handleJoin_ineligible[OF nt inel, of now s sock]
  obtain reply where "handleJoin cfg now s sock message = (None, sendError s sock reply)"
    by blast
  then show ?thesis using sendError_registries[of s sock reply] by blast
qed


theorem handleJoin_rejects_ineligible_witness:
  "m_nodeType ex_join = Some Regional_node \<and>
   (case m_tokenBalance ex_join of None \<Rightarrow> 0 | Some b \<Rightarrow> b)
     < regionalTokenRequirement default_config \<and>
   handleJoin default_config 0 ex_server (ex_ws 7) ex_join =
     (None, ex_server\<lparr>sent_ss :=
       [(7, Error_message ''Insufficient tier or tokens for validator role'')]\<rparr>)"
proof -
  have h: "(m_nodeType ex_join = Some Regional_node \<and>
            (m_nodeTier ex_join \<notin> {Some Aggregator, Some Training} \<or>
             (case m_tokenBalance ex_join of None \<Rightarrow> 0 | Some b \<Rightarrow> b)
               < regionalTokenRequirement default_config)) \<or>
           (m_nodeType ex_join = Some Global_node \<and>
            (m_nodeTier ex_join \<notin> {Some Training, Some Feedback} \<or>
             (case m_tokenBalance ex_join of None \<Rightarrow> 0 | Some b \<Rightarrow> b)
               < globalTokenRequirement default_config))"
    by (simp add: ex_join_def default_config_def)
  have v: "handleJoin default_config 0 ex_server (ex_ws 7) ex_join =
     (None, ex_server\<lparr>sent_ss :=
       [(7, Error_message ''Insufficient tier or tokens for validator role'')]\<rparr>)"
    by (simp add: handleJoin_def ex_join_def ex_server_def ex_ws_def default_config_def
        validateValidatorEligibility_def falsy_string_def sendError_def sendMessage_def)
  show ?thesis
    using handleJoin_rejects_ineligible [OF h, of 0 ex_server "ex_ws 7"] v
    by (simp add: ex_join_def default_config_def)
qed

subsection \<open>DHT replication\<close>

lemma sendMessage_dht_state:
  "snd (sendMessage_dht net s node m) =
     (if deliverable s node then s\<lparr>sent_dht := sent_dht s @ [(node_id node, m)]\<rparr> else s)"
  by (simp add: sendMessage_dht_def deliverable_def split: option.splits)

lemma deliverable_sent [simp]: "deliverable (s\<lparr>sent_dht := x\<rparr>) = deliverable s"
  by (rule ext) (simp add: deliverable_def)

lemma deliverable_data [simp]: "deliverable (s\<lparr>data := x\<rparr>) = deliverable s"
  by (rule ext) (simp add: deliverable_def)

lemma replicate_to_state:
  "replicate_to net m targets s =
     s\<lparr>sent_dht := sent_dht s @ map (\<lambda>n. (node_id n, m)) (filter (deliverable s) targets)\<rparr>"
proof (induction targets arbitrary: s)
  case Nil
  then show ?case by simp
next
  case (Cons node rest)
  show ?case
    by (simp add: Cons.IH sendMessage_dht_state)
qed

text \<open>
  C8. On a connected DHT, \<open>store\<close> always resolves; it hands the \<open>store\<close> message to the
  connections of the first \<open>replicationFactor\<close> nodes of the routing table, skipping those
  whose connection is missing, not open or failing, and whatever the network answers;
  afterwards \<open>findValue\<close> of the key returns the stored value from the local store without
  asking anyone.
\<close>

theorem store_then_findValue:
  assumes "connected s"
  shows "\<exists>s'. store_dht cfg net s key v = (None, s') \<and>
           findValue net' s' key = (Inr (Some v), s') \<and>
           store_targets cfg s = take (replicationFactor cfg) (map snd (nodes s)) \<and>
           sent_dht s' = sent_dht s @
             map (\<lambda>n. (node_id n, Store_msg key v))
               (filter (deliverable s) (store_targets cfg s))"
  using assms
  by (simp add: store_dht_def Let_def replicate_to_state findValue_def AList.update_conv'
      store_targets_def)


theorem store_then_findValue_witness:
  "connected ex_dht \<and>
   store_dht default_config ex_dht_net ex_dht ''k'' ''v'' =
     (None, ex_dht\<lparr>data := [(''k'', ''v'')]\<rparr>) \<and>
   store_targets default_config ex_dht = [ex_dht_node ''a'', ex_dht_node ''b'', ex_dht_node ''c''] \<and>
   filter (deliverable ex_dht) (store_targets default_config ex_dht) = [] \<and>
   findValue ex_dht_net (ex_dht\<lparr>data := [(''k'', ''v'')]\<rparr>) ''k'' =
     (Inr (Some ''v''), ex_dht\<lparr>data := [(''k'', ''v'')]\<rparr>)"
proof -
  have c: "connected ex_dht" by (simp add: ex_dht_def)
  have t: "store_targets default_config ex_dht =
      [ex_dht_node ''a'', ex_dht_node ''b'', ex_dht_node ''c'']"
    by (simp add: store_targets_def default_config_def ex_dht_def)
  have d: "filter (deliverable ex_dht) (store_targets default_config ex_dht) = []"
    unfolding t by (simp add: deliverable_def ex_dht_def ex_dht_node_def)
  have st: "store_dht default_config ex_dht_net ex_dht ''k'' ''v'' =
     (None, ex_dht\<lparr>data := [(''k'', ''v'')]\<rparr>)"
    by (simp add: store_dht_def Let_def replicate_to_state store_targets_def default_config_def
        deliverable_def ex_dht_def ex_dht_node_def)
  show ?thesis
    using store_then_findValue [OF c, of default_config ex_dht_net "''k''" "''v''" ex_dht_net]
      c t d st
    by auto
qed

subsection \<open>Validator shares\<close>


lemma fold_update_const_distinct:
  "distinct (map fst m0) \<Longrightarrow>
   distinct (map fst (fold (\<lambda>v m. AList.update (f v) c m) vs m0))"
  by (induction vs arbitrary: m0) (auto simp: AList.distinct_update)


lemma distribute_distinct:
  "distinct (map fst m) \<Longrightarrow> distinct (map fst (distributeValidatorRewards s task m))"
  by (simp add: distributeValidatorRewards_def Let_def fold_update_const_distinct)







lemma findPeer_activeTasks [simp]: "findPeer (s\<lparr>activeTasks := x\<rparr>) = findPeer s"
  by (rule ext) (simp add: findPeer_def cong: option.case_cong)

lemma getRegionalValidatorForNode_activeTasks [simp]:
  "getRegionalValidatorForNode (s\<lparr>activeTasks := x\<rparr>) = getRegionalValidatorForNode s"
  by (rule ext) (simp add: getRegionalValidatorForNode_def)

lemma addRegionalValidator_activeTasks [simp]:
  "addRegionalValidator (s\<lparr>activeTasks := x\<rparr>) = addRegionalValidator s"
  by (rule ext)+ (simp add: addRegionalValidator_def cong: option.case_cong)

lemma getTaskValidators_finalized [simp]:
  "getTaskValidators (s\<lparr>activeTasks := x\<rparr>)
     (task\<lparr>status := (status task)\<lparr>state := st, completionTime := ct\<rparr>\<rparr>) =
   getTaskValidators s task"
  by (simp add: getTaskValidators_def)

lemma validatorShareOf_finalized [simp]:
  "validatorShareOf (s\<lparr>activeTasks := x\<rparr>)
     (task\<lparr>status := (status task)\<lparr>state := st, completionTime := ct\<rparr>\<rparr>) =
   validatorShareOf s task"
  by (simp add: validatorShareOf_def)

lemma ledger_wf_lookup:
  "ledger_wf s \<Longrightarrow> map_of (rewardDistributions s) k = Some m \<Longrightarrow> distinct (map fst m)"
  by (auto simp: ledger_wf_def dest: map_of_SomeD)

lemma ledger_wf_update:
  assumes "ledger_wf s" "distinct (map fst m)"
  shows "ledger_wf (s\<lparr>rewardDistributions := AList.update k m (rewardDistributions s)\<rparr>)"
  using assms set_update_subset[of k m "rewardDistributions s"]
  by (auto simp: ledger_wf_def AList.distinct_update)


subsection \<open>Acceptance\<close>

text \<open>
  C9. \<open>handleTaskAcceptance\<close> appends the accepting peer to \<open>acceptedNodes\<close> without
  looking at \<open>assignedNodes\<close>. In the sample network, after the task has been distributed
  to \<open>n1\<close> and \<open>n2\<close> and is accepted by nobody, an acceptance sent by the peer \<open>x9\<close>
  leaves \<open>acceptedNodes = [x9]\<close> beside \<open>assignedNodes = [n1, n2]\<close>.
\<close>

theorem handleTaskAcceptance_unassigned_peer:
  "map_of (activeTasks (ex_distributed 90)) ''t1'' =
     Some ((ex_task 10 90)\<lparr>status := (status (ex_task 10 90))
             \<lparr>assignedNodes := [''n1'', ''n2''], acceptedNodes := []\<rparr>\<rparr>) \<and>
   map_of (activeTasks (handleTaskAcceptance 0 (ex_distributed 90) ''t1'' ''x9'')) ''t1'' =
     Some ((ex_task 10 90)\<lparr>status := (status (ex_task 10 90))
             \<lparr>state := Processing, assignedNodes := [''n1'', ''n2''],
              acceptedNodes := [''x9''], startTime := Some 0\<rparr>\<rparr>) \<and>
   \<not> set [''x9''] \<subseteq> set [''n1'', ''n2'']"
  by (simp add: ex_defs)

text \<open>
  An acceptance by a peer that is assigned keeps \<open>acceptedNodes\<close> within \<open>assignedNodes\<close>,
  and so does the removal of a node.
\<close>

lemma handleTaskAcceptance_assigned_peer:
  assumes "map_of (activeTasks s) tid = Some task"
    and "set (acceptedNodes (status task)) \<subseteq> set (assignedNodes (status task))"
    and "peer \<in> set (assignedNodes (status task))"
  shows "\<exists>task'. map_of (activeTasks (handleTaskAcceptance now s tid peer)) tid = Some task' \<and>
           set (acceptedNodes (status task')) \<subseteq> set (assignedNodes (status task'))"
  using assms by (auto simp add: handleTaskAcceptance_def Let_def AList.update_conv')

lemma nodeFailed_containment:
  assumes "set (acceptedNodes (status task)) \<subseteq> set (assignedNodes (status task))"
  shows "set (acceptedNodes (status (nodeFailed peer task))) \<subseteq>
     set (assignedNodes (status (nodeFailed peer task)))"
proof (cases "peer \<in> set (assignedNodes (status task))")
  case False
  then show ?thesis using assms by (simp add: nodeFailed_def)
next
  case True
  let ?A = "filter (\<lambda>i. i \<noteq> peer) (acceptedNodes (status task))"
  let ?B = "filter (\<lambda>i. i \<noteq> peer) (assignedNodes (status task))"
  have sub: "set ?A \<subseteq> set ?B" using assms by auto
  show ?thesis
  proof (cases "?B = []")
    case e: True
    then have "set ?A = {}" using sub by simp
    then have "?A = []" by (simp only: set_empty)
    then show ?thesis using True e by (simp add: nodeFailed_def Let_def)
  next
    case ne: False
    then show ?thesis using True sub by (simp add: nodeFailed_def Let_def)
  qed
qed

subsection \<open>Settlement\<close>

lemmas run_defs = handleTaskCompletion_def completionLedger_def completionReward_def
  finalizeTask_def distributeValidatorRewards_def getTaskValidators_def
  addRegionalValidator_def findPeer_def getRegionalValidatorForNode_def cleanupTask_def
  rewardMessages_def



text \<open>
  C1. The engine computes the per-node reward that makes the settlement add up,
  \<open>calculateNodeReward\<close>, and announces it to the nodes in the assignment messages, but
  it never stores it: \<open>handleTaskCompletion\<close> records \<open>reward.perNode\<close> of the stored task,
  which is still the value the submitter declared. In the sample network the task of 200
  tokens is declared with \<open>perNode = 150\<close> and passes the validation; \<open>n1\<close> and \<open>n2\<close> are
  assigned and told 90 each; both accept and report in time. The task is finalized and
  150 + 150 for the nodes and 10 + 10 for the validators are sent out: 320 for a total
  of 200.
\<close>

theorem settlement_pays_declared_perNode:
  "fst (broadcastTask default_config ex_net (ex_task 10 150) ''gA'') = None \<and>
   calculateNodeReward (ex_task 10 150) 2 = 90 \<and>
   assignedRewards (sent (ex_accepted 150)) = [(3, ''t1'', 90), (4, ''t1'', 90)] \<and>
   map_of (activeTasks (ex_accepted 150)) ''t1'' =
     Some ((ex_task 10 150)
             \<lparr>status := \<lparr>state = Processing, assignedNodes = [''n1'', ''n2''],
                         acceptedNodes = [''n1'', ''n2''], progress = 0, startTime = Some 0,
                         completionTime = None, error = None\<rparr>\<rparr>) \<and>
   fst (ex_settled 150) = None \<and>
   map_of (activeTasks (snd (ex_settled 150))) ''t1'' =
     Some ((ex_task 10 150)
             \<lparr>status := \<lparr>state = Completed, assignedNodes = [''n1'', ''n2''],
                         acceptedNodes = [''n1'', ''n2''], progress = 0, startTime = Some 0,
                         completionTime = Some 60000, error = None\<rparr>\<rparr>) \<and>
   rewardMessages (sent (snd (ex_settled 150))) =
     [(3, ''t1'', 150), (4, ''t1'', 150), (1, ''t1'', 10), (2, ''t1'', 10)] \<and>
   rewardsPaid (sent (snd (ex_settled 150))) = 320 \<and>
   total (reward (ex_task 10 150)) = 200"
  by (simp add: ex_settled_def ex_defs run_defs assignedRewards_def calculateNodeReward_def
      rewardsPaid_def)

text \<open>
  When the declared \<open>perNode\<close> happens to be the computed one, 90, the same run pays out
  exactly the total.
\<close>

lemma settlement_of_computed_perNode:
  "fst (ex_settled 90) = None \<and>
   rewardMessages (sent (snd (ex_settled 90))) =
     [(3, ''t1'', 90), (4, ''t1'', 90), (1, ''t1'', 10), (2, ''t1'', 10)] \<and>
   rewardsPaid (sent (snd (ex_settled 90))) = total (reward (ex_task 10 90))"
  by (simp add: ex_settled_def ex_defs run_defs rewardsPaid_def)

text \<open>
  The computed reward divides the node budget by the number of assigned nodes, while the
  task is finalized as soon as the accepted ones have reported. With \<open>perNode = 90\<close>
  declared and only \<open>n1\<close> accepting, the report of \<open>n1\<close> finalizes the task: 90 for
  \<open>n1\<close> and a pool of 20, shared by \<open>gA\<close> and \<open>rv1\<close>, are paid out of a total of 200.
\<close>

lemma settlement_single_acceptor:
  "map_of (activeTasks ex_one_accepted) ''t1'' = Some ex_stored_one \<and>
   map_of (rewardDistributions ex_one_accepted) ''t1'' = Some [] \<and>
   perNode (reward ex_stored_one) = calculateNodeReward ex_stored_one 2 \<and>
   completionLedger 50000 ex_stored_one ''n1'' [] = [(''n1'', 90)] \<and>
   fst (handleTaskCompletion 50000 ex_one_accepted ''t1'' ''n1'') = None \<and>
   map_of (activeTasks (snd (handleTaskCompletion 50000 ex_one_accepted ''t1'' ''n1''))) ''t1'' =
     Some (ex_stored_one\<lparr>status := (status ex_stored_one)
             \<lparr>state := Completed, completionTime := Some 50000\<rparr>\<rparr>) \<and>
   rewardMessages (sent (snd (handleTaskCompletion 50000 ex_one_accepted ''t1'' ''n1''))) =
     [(3, ''t1'', 90), (1, ''t1'', 10), (2, ''t1'', 10)] \<and>
   \<not> rewards_conserved ex_stored_one [(''n1'', 90)]"
  by (simp add: ex_one_accepted_def ex_stored_one_def ex_defs run_defs rewards_conserved_def)

subsection \<open>Failover\<close>

lemma forwardMessage_gc_snd:
  "snd (forwardMessage_gc s peer m) =
     (if sock_ok peer then s\<lparr>sent_gc := sent_gc s @ [(wsId (ws peer), m)]\<rparr> else s)"
  by (simp add: forwardMessage_gc_def sock_ok_def)

lemma forwardMessage_gc_ok:
  "sock_ok peer \<Longrightarrow>
   forwardMessage_gc s peer m = (None, s\<lparr>sent_gc := sent_gc s @ [(wsId (ws peer), m)]\<rparr>)"
  by (simp add: forwardMessage_gc_def sock_ok_def)

lemma reassignmentMessage_sent [simp]:
  "reassignmentMessage (s\<lparr>sent_gc := x\<rparr>) = reassignmentMessage s"
  by (rule ext)+ (simp add: reassignmentMessage_def)

lemma reassignTasks_ok:
  "sock_ok b \<Longrightarrow>
   reassignTasks tasks b s =
     (None, s\<lparr>sent_gc := sent_gc s @
                map (\<lambda>t. (wsId (ws b), reassignmentMessage s t b)) tasks\<rparr>)"
proof (induction tasks arbitrary: s)
  case Nil
  then show ?case by simp
next
  case (Cons t tasks)
  show ?case
    by (simp add: reassignTask_def forwardMessage_gc_ok[OF Cons.prems] Cons.IH[OF Cons.prems])
qed

lemma fold_forward:
  "fold (\<lambda>node s'. snd (forwardMessage_gc s' node m)) ns s =
     s\<lparr>sent_gc := sent_gc s @ map (\<lambda>n. (wsId (ws n), m)) (filter sock_ok ns)\<rparr>"
  by (induction ns arbitrary: s) (simp_all add: forwardMessage_gc_snd)

lemma broadcastToGlobalNodes_state:
  "broadcastToGlobalNodes s m =
     s\<lparr>sent_gc := sent_gc s @
          map (\<lambda>n. (wsId (ws n), m))
            (filter sock_ok
               (filter (\<lambda>node. isNodeHealthy s (peerId (info node))) (map snd (globalNodes s))))\<rparr>"
  by (simp add: broadcastToGlobalNodes_def fold_forward)

lemma isNodeHealthy_fields [simp]:
  "isNodeHealthy (s\<lparr>sent_gc := x\<rparr>) = isNodeHealthy s"
  "isNodeHealthy (s\<lparr>failoverHistory := y\<rparr>) = isNodeHealthy s"
  by (rule ext, simp add: isNodeHealthy_def)+

lemma getNodeTasks_fields [simp]:
  "getNodeTasks (s\<lparr>healthMetrics := x\<rparr>) = getNodeTasks s"
  by (rule ext) (simp add: getNodeTasks_def)

lemma reassignmentMessage_health [simp]:
  "reassignmentMessage (s\<lparr>healthMetrics := x\<rparr>) = reassignmentMessage s"
  by (rule ext)+ (simp add: reassignmentMessage_def)

lemma handleNodeFailover_candidates:
  "(filter (\<lambda>node. peerId (info node) \<noteq> nid \<and>
                               (case map_of (healthMetrics s) (peerId (info node)) of
                                  None \<Rightarrow> False | Some h \<Rightarrow> status_h h = Active))
                  (map snd (globalNodes s))) = backupCandidates s nid"
  by (simp add: backupCandidates_def isNodeHealthy_def)

lemma handleNodeFailover_none:
  assumes "map_of (globalNodes s) nid = Some node" "backupCandidates s nid = []"
  shows "handleNodeFailover now s nid = (None, s)"
  using assms by (simp add: handleNodeFailover_def handleNodeFailover_candidates)

lemma handleNodeFailover_backup:
  assumes "map_of (globalNodes s) nid = Some node" "backupCandidates s nid = b # rest"
    and "sock_ok b \<or> getNodeTasks s nid = []"
  shows "handleNodeFailover now s nid =
     (None, s\<lparr>failoverHistory := failoverHistory s @ [failoverRecord now s nid b],
               sent_gc := sent_gc s @
                 map (\<lambda>t. (wsId (ws b), reassignmentMessage s t b)) (getNodeTasks s nid) @
                 map (\<lambda>n. (wsId (ws n), Global_node_failover (failoverRecord now s nid b)))
                   (filter sock_ok
                      (filter (\<lambda>node. isNodeHealthy s (peerId (info node)))
                         (map snd (globalNodes s))))\<rparr>)"
proof -
  have r: "reassignTasks (getNodeTasks s nid) b s =
      (None, s\<lparr>sent_gc := sent_gc s @
                map (\<lambda>t. (wsId (ws b), reassignmentMessage s t b)) (getNodeTasks s nid)\<rparr>)"
  proof (cases "sock_ok b")
    case True
    then show ?thesis by (rule reassignTasks_ok)
  next
    case False
    then have "getNodeTasks s nid = []" using assms(3) by simp
    then show ?thesis by simp
  qed
  show ?thesis
    using assms(1,2)
    by (simp add: handleNodeFailover_def handleNodeFailover_candidates Let_def r
        broadcastToGlobalNodes_state failoverRecord_def)
qed


lemma removeGlobalNode_marked:
  shows "isNodeHealthy (s\<lparr>healthMetrics := AList.update pid (h\<lparr>status_h := Offline, issues := i\<rparr>)
                           (healthMetrics s)\<rparr>) x =
         (x \<noteq> pid \<and> isNodeHealthy s x)"
  by (simp add: isNodeHealthy_def AList.update_conv')

lemma backupCandidates_marked:
  "backupCandidates (s\<lparr>healthMetrics := AList.update pid (h\<lparr>status_h := Offline, issues := i\<rparr>)
                           (healthMetrics s)\<rparr>) pid = backupCandidates s pid"
  by (simp add: backupCandidates_def removeGlobalNode_marked cong: conj_cong)

lemma healthy_marked:
  "filter (\<lambda>node. isNodeHealthy
             (s\<lparr>healthMetrics := AList.update pid (h\<lparr>status_h := Offline, issues := i\<rparr>)
                           (healthMetrics s)\<rparr>) (peerId (info node)))
     (map snd (globalNodes s)) = backupCandidates s pid"
  by (simp add: backupCandidates_def removeGlobalNode_marked)

lemma healthy_unknown:
  "map_of (healthMetrics s) pid = None \<Longrightarrow>
   filter (\<lambda>node. isNodeHealthy s (peerId (info node))) (map snd (globalNodes s)) =
     backupCandidates s pid"
  unfolding backupCandidates_def
  by (rule filter_cong) (auto simp add: isNodeHealthy_def)

lemma failoverRecord_health [simp]:
  "failoverRecord now (s\<lparr>healthMetrics := x\<rparr>) = failoverRecord now s"
  by (rule ext)+ (simp add: failoverRecord_def)

text \<open>
  The removal of a tracked global validator (it disconnected) does perform a failover. The
  backup is the first other tracked validator whose health status is active. Without one,
  nothing is reassigned and no record is written; the node is dropped. With a backup whose
  socket takes the messages (or with no task to reassign), every task of the removed node
  is sent to the backup, exactly one failover record is appended and broadcast to the
  healthy validators, and the node is dropped.
\<close>

lemma removeGlobalNode_state:
  assumes "map_of (globalNodes s) pid = Some node"
  shows "(backupCandidates s pid = [] \<longrightarrow>
            removeGlobalNode now s pid =
              (None, s\<lparr>globalNodes := AList.delete pid (globalNodes s),
                        healthMetrics := AList.delete pid (healthMetrics s)\<rparr>)) \<and>
         (\<forall>b rest. backupCandidates s pid = b # rest \<and>
                   (sock_ok b \<or> getNodeTasks s pid = []) \<longrightarrow>
            removeGlobalNode now s pid =
              (None, s\<lparr>globalNodes := AList.delete pid (globalNodes s),
                        healthMetrics := AList.delete pid (healthMetrics s),
                        failoverHistory := failoverHistory s @ [failoverRecord now s pid b],
                        sent_gc := sent_gc s @
                          map (\<lambda>t. (wsId (ws b), reassignmentMessage s t b))
                            (getNodeTasks s pid) @
                          map (\<lambda>n. (wsId (ws n),
                                     Global_node_failover (failoverRecord now s pid b)))
                            (filter sock_ok (backupCandidates s pid))\<rparr>))"
proof (cases "map_of (healthMetrics s) pid")
  case None
  have none: "backupCandidates s pid = [] \<Longrightarrow> handleNodeFailover now s pid = (None, s)"
    using assms by (rule handleNodeFailover_none)
  show ?thesis
    using assms None none healthy_unknown[OF None]
    by (auto simp add: removeGlobalNode_def handleNodeFailover_backup[OF assms])
next
  case (Some h)
  let ?s1 = "s\<lparr>healthMetrics := AList.update pid
                 (h\<lparr>status_h := Offline,
                    issues := issues h @ [''Node disconnected from network'']\<rparr>)
                 (healthMetrics s)\<rparr>"
  have g: "map_of (globalNodes ?s1) pid = Some node" using assms by simp
  have c: "backupCandidates ?s1 pid = backupCandidates s pid" by (rule backupCandidates_marked)
  have none: "backupCandidates s pid = [] \<Longrightarrow> handleNodeFailover now ?s1 pid = (None, ?s1)"
    using handleNodeFailover_none[OF g] c by simp
  have some: "\<And>b rest. backupCandidates s pid = b # rest \<Longrightarrow>
      sock_ok b \<or> getNodeTasks s pid = [] \<Longrightarrow>
      handleNodeFailover now ?s1 pid =
        (None, ?s1\<lparr>failoverHistory := failoverHistory s @ [failoverRecord now s pid b],
               sent_gc := sent_gc s @
                 map (\<lambda>t. (wsId (ws b), reassignmentMessage s t b)) (getNodeTasks s pid) @
                 map (\<lambda>n. (wsId (ws n), Global_node_failover (failoverRecord now s pid b)))
                   (filter sock_ok (backupCandidates s pid))\<rparr>)"
  proof -
    fix b rest
    assume a: "backupCandidates s pid = b # rest" "sock_ok b \<or> getNodeTasks s pid = []"
    have a1: "backupCandidates ?s1 pid = b # rest" using a(1) c by simp
    have a2: "sock_ok b \<or> getNodeTasks ?s1 pid = []" using a(2) by simp
    show "handleNodeFailover now ?s1 pid =
        (None, ?s1\<lparr>failoverHistory := failoverHistory s @ [failoverRecord now s pid b],
               sent_gc := sent_gc s @
                 map (\<lambda>t. (wsId (ws b), reassignmentMessage s t b)) (getNodeTasks s pid) @
                 map (\<lambda>n. (wsId (ws n), Global_node_failover (failoverRecord now s pid b)))
                   (filter sock_ok (backupCandidates s pid))\<rparr>)"
      using handleNodeFailover_backup[OF g a1 a2, of now]
      by (simp add: healthy_marked)
  qed
  show ?thesis
    using assms Some none some
    by (auto simp add: removeGlobalNode_def AList.delete_update_same)
qed

text \<open>
  The periodic health check, in any state, leaves the failover history as it is: a node
  found failing only has its health record broadcast (\<open>handleDegradedNode\<close>).
\<close>

lemma broadcastToGlobalNodes_history [simp]:
  "failoverHistory (broadcastToGlobalNodes s m) = failoverHistory s"
  by (simp add: broadcastToGlobalNodes_state)

lemma checkNode_history [simp]:
  "failoverHistory (checkNode now ping entry s) = failoverHistory s"
  by (simp add: checkNode_def assessNodeHealth_def handleDegradedNode_def Let_def
      split: option.splits prod.splits)

lemma checkGlobalNodesHealth_history:
  "failoverHistory (checkGlobalNodesHealth now ping s) = failoverHistory s"
proof -
  have "failoverHistory (fold (checkNode now ping) ns s) = failoverHistory s" for ns
    by (induction ns arbitrary: s) simp_all
  then show ?thesis by (simp add: checkGlobalNodesHealth_def)
qed

lemmas gc_defs = ex_gc_def ex_gc_initial_def addGlobalNode_def initializeHealthMetrics_def
  synchronizeWithGlobalNodes_def broadcastToGlobalNodes_def forwardMessage_gc_def
  isNodeHealthy_def ex_peer_def ex_ws_def

lemma ex_gc_state:
  "ex_gc = \<lparr>globalNodes = [(''gA'', ex_peer 1 ''gA'' Global_node Training ''eu'' 5000),
                           (''gB'', ex_peer 2 ''gB'' Global_node Training ''us'' 5000)],
            healthMetrics =
              [(''gA'', \<lparr>nodeId_h = ''gA'', status_h = Active, lastCheck = 0,
                         metrics_h = \<lparr>responsiveness = 100, taskCompletion = 100,
                                      networkLatency = 0, resourceUtilization = 0\<rparr>,
                         issues = []\<rparr>),
               (''gB'', \<lparr>nodeId_h = ''gB'', status_h = Active, lastCheck = 0,
                         metrics_h = \<lparr>responsiveness = 100, taskCompletion = 100,
                                      networkLatency = 0, resourceUtilization = 0\<rparr>,
                         issues = []\<rparr>)],
            failoverHistory = [], activeTasks_gc = [],
            sent_gc =
              [(1, Sync_request [] [info (ex_peer 1 ''gA'' Global_node Training ''eu'' 5000)]),
               (1, Sync_request [] [info (ex_peer 1 ''gA'' Global_node Training ''eu'' 5000),
                                    info (ex_peer 2 ''gB'' Global_node Training ''us'' 5000)]),
               (2, Sync_request [] [info (ex_peer 1 ''gA'' Global_node Training ''eu'' 5000),
                                    info (ex_peer 2 ''gB'' Global_node Training ''us'' 5000)])]\<rparr>"
  by (simp add: gc_defs)

lemmas check_defs = checkGlobalNodesHealth_def checkNode_def assessNodeHealth_def
  handleDegradedNode_def getNodeTaskMetrics_def determineNodeStatus_def ex_ping_def
  broadcastToGlobalNodes_def forwardMessage_gc_def isNodeHealthy_def ex_peer_def ex_ws_def Let_def

text \<open>
  C3. The coordinator tracks \<open>gA\<close> and \<open>gB\<close>, both active, and \<open>gA\<close> stops answering
  the probe. Each health check takes 20 off its responsiveness; the third check finds 40,
  below 50, and sets the status of \<open>gA\<close> to failing. \<open>gB\<close> is active and would be the
  backup, yet no failover takes place: the failover history stays empty and no failover
  message is sent. The removal of \<open>gA\<close> in that same state does perform the failover to
  \<open>gB\<close> and appends one record.
\<close>

theorem health_check_performs_no_failover:
  "map_of (healthMetrics ex_gc_checked) ''gA'' =
     Some \<lparr>nodeId_h = ''gA'', status_h = Failing, lastCheck = 3000,
           metrics_h = \<lparr>responsiveness = 40, taskCompletion = 100,
                        networkLatency = 0, resourceUtilization = 0\<rparr>,
           issues = [''Node not responding to ping'', ''Node not responding to ping'',
                     ''Node not responding to ping'']\<rparr> \<and>
   map fst (globalNodes ex_gc_checked) = [''gA'', ''gB''] \<and>
   map peerId (getHealthyGlobalNodes ex_gc_checked) = [''gB''] \<and>
   map peerId (map info (backupCandidates ex_gc_checked ''gA'')) = [''gB''] \<and>
   failoverHistory ex_gc_checked = [] \<and>
   failoverMessages (sent_gc ex_gc_checked) = [] \<and>
   fst (removeGlobalNode 4000 ex_gc_checked ''gA'') = None \<and>
   failoverHistory (snd (removeGlobalNode 4000 ex_gc_checked ''gA'')) =
     [\<lparr>failedNodeId = ''gA'', backupNodeId = ''gB'', affectedTasks = [],
       timestamp_f = 4000, reason = ''Node health degraded below acceptable threshold''\<rparr>] \<and>
   failoverMessages (sent_gc (snd (removeGlobalNode 4000 ex_gc_checked ''gA''))) =
     [(2, Global_node_failover
            \<lparr>failedNodeId = ''gA'', backupNodeId = ''gB'', affectedTasks = [],
             timestamp_f = 4000,
             reason = ''Node health degraded below acceptable threshold''\<rparr>)]"
  by (simp add: ex_gc_checked_def ex_gc_state check_defs getHealthyGlobalNodes_def
      backupCandidates_def removeGlobalNode_def handleNodeFailover_def getNodeTasks_def
      failoverMessages_def)

subsection \<open>Invariants of the task engine\<close>

lemma engine_ok_frame:
  "activeTasks s' = activeTasks s \<Longrightarrow> rewardDistributions s' = rewardDistributions s \<Longrightarrow>
   engine_ok s' = engine_ok s"
  by (simp add: engine_ok_def tasks_keyed_def ledger_wf_def)

lemma forwardMessage_frame:
  "activeTasks (snd (forwardMessage s p m)) = activeTasks s \<and>
   rewardDistributions (snd (forwardMessage s p m)) = rewardDistributions s"
  by (simp add: forwardMessage_def)

lemma broadcastRegions_frame:
  "activeTasks (snd (broadcastRegions task rs s)) = activeTasks s \<and>
   rewardDistributions (snd (broadcastRegions task rs s)) = rewardDistributions s"
proof (induction rs arbitrary: s)
  case Nil
  then show ?case by simp
next
  case (Cons r rs)
  obtain reg vs where r: "r = (reg, vs)" by (cases r)
  show ?case
    using Cons.IH forwardMessage_frame
    by (auto simp add: r Let_def forwardMessage_def split: option.splits prod.splits if_splits)
qed

lemma sendAssignments_frame:
  "activeTasks (snd (sendAssignments task r ns s)) = activeTasks s \<and>
   rewardDistributions (snd (sendAssignments task r ns s)) = rewardDistributions s"
proof (induction ns arbitrary: s)
  case Nil
  then show ?case by simp
next
  case (Cons n ns)
  show ?case
    using Cons.IH
    by (auto simp add: Let_def forwardMessage_def split: option.splits prod.splits if_splits)
qed

lemma sendRewards_frame:
  "activeTasks (snd (sendRewards tid m s)) = activeTasks s \<and>
   rewardDistributions (snd (sendRewards tid m s)) = rewardDistributions s"
proof (induction m arbitrary: s)
  case Nil
  then show ?case by simp
next
  case (Cons e m)
  obtain pid r where e: "e = (pid, r)" by (cases e)
  show ?case
    using Cons.IH
    by (auto simp add: e forwardMessage_def split: option.splits prod.splits if_splits)
qed


lemma ledger_wf_activeTasks [simp]: "ledger_wf (s\<lparr>activeTasks := x\<rparr>) = ledger_wf s"
  by (simp add: ledger_wf_def)

lemma tasks_keyed_ledger [simp]: "tasks_keyed (s\<lparr>rewardDistributions := x\<rparr>) = tasks_keyed s"
  by (simp add: tasks_keyed_def)

lemma ledger_wf_cleanupTask: "ledger_wf s \<Longrightarrow> ledger_wf (cleanupTask s tid)"
proof -
  assume wf: "ledger_wf s"
  have "set (AList.delete tid (rewardDistributions s)) \<subseteq> set (rewardDistributions s)"
    by (auto simp: AList.delete_eq)
  then show ?thesis using wf
    by (auto simp add: cleanupTask_def Let_def ledger_wf_def AList.distinct_delete
        split: option.splits)
qed

lemma engine_ok_cleanupTask: "engine_ok s \<Longrightarrow> engine_ok (cleanupTask s tid)"
  by (simp add: engine_ok_def ledger_wf_cleanupTask)

lemma engine_ok_update_task:
  "engine_ok s \<Longrightarrow> taskId t = k \<Longrightarrow>
   engine_ok (s\<lparr>activeTasks := AList.update k t (activeTasks s)\<rparr>)"
  by (simp add: engine_ok_def tasks_keyed_update)

lemma engine_ok_update_ledger:
  "engine_ok s \<Longrightarrow> distinct (map fst m) \<Longrightarrow>
   engine_ok (s\<lparr>rewardDistributions := AList.update k m (rewardDistributions s)\<rparr>)"
  by (simp add: engine_ok_def ledger_wf_update)

lemma engine_ok_lookup:
  "engine_ok s \<Longrightarrow> map_of (activeTasks s) k = Some t \<Longrightarrow> taskId t = k"
  by (auto simp add: engine_ok_def dest: tasks_keyed_lookup)

lemma engine_ok_ledger_lookup:
  "engine_ok s \<Longrightarrow> map_of (rewardDistributions s) k = Some m \<Longrightarrow> distinct (map fst m)"
  by (auto simp add: engine_ok_def dest: ledger_wf_lookup)

lemma engine_ok_addNode: "engine_ok s \<Longrightarrow> engine_ok (addNode s peer)"
proof -
  have "activeTasks (addNode s peer) = activeTasks s \<and>
        rewardDistributions (addNode s peer) = rewardDistributions s"
    by (simp add: addNode_def Let_def split: NodeType.splits)
  then show "engine_ok s \<Longrightarrow> engine_ok (addNode s peer)"
    using engine_ok_frame by blast
qed

lemma engine_ok_handleNodeFailure: "engine_ok s \<Longrightarrow> engine_ok (handleNodeFailure s tid n)"
  by (auto simp add: handleNodeFailure_def Let_def engine_ok_cleanupTask engine_ok_update_task
      engine_ok_lookup split: option.splits)

lemma engine_ok_fold_visit:
  "engine_ok s \<Longrightarrow> engine_ok (fold (removeNode_visit peer) ks s)"
proof (induction ks arbitrary: s)
  case Nil
  then show ?case by simp
next
  case (Cons k ks)
  have "engine_ok (removeNode_visit peer k s)"
    using Cons.prems
    by (simp add: removeNode_visit_def engine_ok_handleNodeFailure split: option.splits)
  then show ?case using Cons.IH by simp
qed

lemma engine_ok_removeNode: "engine_ok s \<Longrightarrow> engine_ok (removeNode s peer ntype reg)"
proof -
  assume ok: "engine_ok s"
  let ?s1 = "fold (removeNode_visit peer) (map fst (activeTasks s)) s"
  have "activeTasks (removeNode s peer ntype reg) = activeTasks ?s1 \<and>
        rewardDistributions (removeNode s peer ntype reg) = rewardDistributions ?s1"
    by (cases ntype) (simp_all add: removeNode_def Let_def)
  then show ?thesis using engine_ok_fold_visit[OF ok] engine_ok_frame by blast
qed


lemma engine_ok_broadcastTask:
  assumes ok: "engine_ok s"
  shows "engine_ok (snd (broadcastTask cfg s task src))"
proof (cases "validateTaskRequirements cfg task")
  case False
  then show ?thesis using ok by (simp add: broadcastTask_def)
next
  case True
  let ?s2 = "setupTaskTimeout (s\<lparr>activeTasks := AList.update (taskId task) task (activeTasks s)\<rparr>)
              task"
  have "engine_ok (s\<lparr>activeTasks := AList.update (taskId task) task (activeTasks s)\<rparr>)"
    using ok by (simp add: engine_ok_update_task)
  then have ok2: "engine_ok ?s2"
    by (simp add: setupTaskTimeout_def engine_ok_def tasks_keyed_def ledger_wf_def)
  have "engine_ok (snd (broadcastRegions task (regionalValidators ?s2) ?s2)) = engine_ok ?s2"
    using broadcastRegions_frame[of task "regionalValidators ?s2" ?s2] by (intro engine_ok_frame) auto
  then show ?thesis
    using True ok2 by (simp add: broadcastTask_def Let_def)
qed

lemma engine_ok_handleRegionalTaskDistribution:
  assumes ok: "engine_ok s"
  shows "engine_ok (snd (handleRegionalTaskDistribution s task reg src))"
proof (cases "map_of (individualNodes s) reg")
  case None
  then show ?thesis using ok by (simp add: handleRegionalTaskDistribution_def)
next
  case (Some nodes)
  let ?el = "js_slice0 (filter (\<lambda>node. isNodeEligibleForTask node task) (map snd nodes))
                  (maxNodes (requirements task))"
  show ?thesis
  proof (cases "length ?el = 0")
    case True
    then show ?thesis using ok Some by (simp add: handleRegionalTaskDistribution_def Let_def)
  next
    case False
    obtain e s' where sa: "sendAssignments task (calculateNodeReward task (length ?el)) ?el s = (e, s')"
      by (cases "sendAssignments task (calculateNodeReward task (length ?el)) ?el s")
    have "engine_ok s' = engine_ok s"
      using sendAssignments_frame[of task "calculateNodeReward task (length ?el)" ?el s] sa
      by (intro engine_ok_frame) auto
    then have ok': "engine_ok s'" using ok by simp
    have upd: "engine_ok (s'\<lparr>activeTasks := AList.update (taskId task) t' (activeTasks s')\<rparr>)"
      if "taskId t' = taskId task" for t'
      using ok' that by (rule engine_ok_update_task)
    show ?thesis using Some False sa ok'
      by (cases e) (simp_all add: handleRegionalTaskDistribution_def Let_def upd)
  qed
qed

lemma engine_ok_handleTaskAcceptance:
  assumes "engine_ok s"
  shows "engine_ok (handleTaskAcceptance now s tid peer)"
proof (cases "map_of (activeTasks s) tid")
  case None
  then show ?thesis using assms by (simp add: handleTaskAcceptance_def)
next
  case (Some task)
  have tk: "taskId task = tid" using assms Some by (rule engine_ok_lookup)
  have ok1: "engine_ok (s\<lparr>activeTasks := AList.update tid t' (activeTasks s)\<rparr>)"
    if "taskId t' = tid" for t'
    using assms that by (rule engine_ok_update_task)
  have ok2: "engine_ok (s\<lparr>activeTasks := AList.update tid t' (activeTasks s),
                         rewardDistributions := AList.update tid [] (rewardDistributions s)\<rparr>)"
    if "taskId t' = tid" for t'
    using engine_ok_update_ledger[OF ok1[OF that], of "[]" tid] by simp
  show ?thesis using Some tk
    by (simp add: handleTaskAcceptance_def Let_def ok1 ok2)
qed

lemma engine_ok_handleTaskTimeout: "engine_ok s \<Longrightarrow> engine_ok (handleTaskTimeout s tid)"
  by (auto simp add: handleTaskTimeout_def Let_def engine_ok_cleanupTask engine_ok_update_task
      engine_ok_lookup split: option.splits)

lemma engine_ok_fireTimer: "engine_ok s \<Longrightarrow> engine_ok (fireTimer s h)"
proof -
  assume ok: "engine_ok s"
  have "engine_ok (s\<lparr>timers := x\<rparr>)" for x using ok
    by (simp add: engine_ok_def tasks_keyed_def ledger_wf_def)
  then show ?thesis using ok
    by (simp add: fireTimer_def engine_ok_handleTaskTimeout split: option.splits)
qed

lemma engine_ok_finalizeTask:
  assumes "engine_ok s" "taskId task = key"
  shows "engine_ok (snd (finalizeTask s key task c))"
proof -
  let ?task' = "task\<lparr>status := (status task)\<lparr>state := Completed, completionTime := Some c\<rparr>\<rparr>"
  let ?s1 = "s\<lparr>activeTasks := AList.update key ?task' (activeTasks s)\<rparr>"
  have ok1: "engine_ok ?s1" using assms by (simp add: engine_ok_update_task)
  show ?thesis
  proof (cases "map_of (rewardDistributions s) key")
    case None
    then show ?thesis using ok1 assms(2)
      by (simp add: finalizeTask_def Let_def)
  next
    case (Some m)
    let ?m' = "distributeValidatorRewards ?s1 ?task' m"
    let ?s2 = "?s1\<lparr>rewardDistributions := AList.update key ?m' (rewardDistributions s)\<rparr>"
    have d: "distinct (map fst ?m')"
      using engine_ok_ledger_lookup[OF assms(1) Some] by (rule distribute_distinct)
    have ok2: "engine_ok ?s2" using engine_ok_update_ledger[OF ok1 d, of key] by simp
    have ok3: "engine_ok (snd (sendRewards key ?m' ?s2))"
      using sendRewards_frame[of key ?m' ?s2] engine_ok_frame ok2 by blast
    show ?thesis using Some assms(2) ok3 engine_ok_cleanupTask[OF ok3, of key]
      by (auto simp add: finalizeTask_def Let_def
          split: prod.splits option.splits)
  qed
qed

lemma engine_ok_handleTaskCompletion:
  assumes "engine_ok s"
  shows "engine_ok (snd (handleTaskCompletion now s tid peer))"
proof (cases "map_of (activeTasks s) tid")
  case None
  then show ?thesis using assms by (simp add: handleTaskCompletion_def)
next
  case (Some task)
  have tk: "taskId task = tid" using assms Some by (rule engine_ok_lookup)
  show ?thesis
  proof (cases "map_of (rewardDistributions s) tid")
    case None
    then show ?thesis using assms Some by (simp add: handleTaskCompletion_def)
  next
    case m: (Some m)
    let ?m' = "completionLedger now task peer m"
    let ?s1 = "s\<lparr>rewardDistributions := AList.update tid ?m' (rewardDistributions s)\<rparr>"
    have d: "distinct (map fst ?m')"
      using engine_ok_ledger_lookup[OF assms m]
      by (simp add: completionLedger_def AList.distinct_update)
    have ok1: "engine_ok ?s1" using assms d by (rule engine_ok_update_ledger)
    show ?thesis
      using Some m ok1 engine_ok_finalizeTask[OF ok1 tk, of now]
      by (simp add: handleTaskCompletion_def Let_def)
  qed
qed

lemma engine_ok_retryTask:
  assumes "engine_ok s"
  shows "engine_ok (snd (retryTask cfg now s tid))"
proof (cases "map_of (activeTasks s) tid")
  case None
  then show ?thesis using assms by (simp add: retryTask_def)
next
  case (Some task)
  have tk: "taskId task = tid" using assms Some by (rule engine_ok_lookup)
  let ?task' = "task\<lparr>status := \<lparr>state = Pending, assignedNodes = [], acceptedNodes = [],
                                        progress = 0, startTime = None, completionTime = None,
                                        error = None\<rparr>,
                              timestamp := now\<rparr>"
  let ?s1 = "s\<lparr>activeTasks := AList.update tid ?task' (activeTasks s)\<rparr>"
  have ok1: "engine_ok ?s1" using assms tk by (simp add: engine_ok_update_task)
  have ok2: "engine_ok (snd (broadcastTask cfg ?s1 ?task' (submitter ?task')))"
    using ok1 by (rule engine_ok_broadcastTask)
  obtain e s2 where b: "broadcastTask cfg ?s1 ?task' (submitter ?task') = (e, s2)"
    by (cases "broadcastTask cfg ?s1 ?task' (submitter ?task')")
  have "engine_ok s2" using ok2 b by simp
  then show ?thesis using Some assms b
    by (cases e) (simp_all add: retryTask_def Let_def)
qed

text \<open>
  In every reachable state each task is stored under its own id and no key occurs twice
  in the ledger: the assumptions made above about the tables hold whenever the engine runs.
\<close>

theorem reachable_engine_ok: "reachable cfg s \<Longrightarrow> tasks_keyed s \<and> ledger_wf s"
proof -
  have "reachable cfg s \<Longrightarrow> engine_ok s"
  proof (induction rule: reachable.induct)
    case (start s)
    then show ?case by (simp add: engine_ok_def tasks_keyed_def ledger_wf_def)
  qed (simp_all add: engine_ok_addNode engine_ok_removeNode engine_ok_broadcastTask
        engine_ok_handleRegionalTaskDistribution engine_ok_handleTaskAcceptance
        engine_ok_handleTaskCompletion engine_ok_fireTimer engine_ok_retryTask)
  then show "reachable cfg s \<Longrightarrow> tasks_keyed s \<and> ledger_wf s" by (simp add: engine_ok_def)
qed

subsection \<open>Finalization\<close>

lemma findPeer_fields [simp]:
  "findPeer (s\<lparr>sent := x\<rparr>) = findPeer s"
  "findPeer (s\<lparr>rewardDistributions := y\<rparr>) = findPeer s"
  by (rule ext, simp add: findPeer_def cong: option.case_cong)+

lemma rewardMessageFor_fields [simp]:
  "rewardMessageFor (s\<lparr>sent := x\<rparr>) = rewardMessageFor s"
  "rewardMessageFor (s\<lparr>rewardDistributions := y\<rparr>) = rewardMessageFor s"
  "rewardMessageFor (s\<lparr>activeTasks := z\<rparr>) = rewardMessageFor s"
  by (rule ext, rule ext, simp add: rewardMessageFor_def)+

lemma rewardMessagesFor_fields [simp]:
  "rewardMessagesFor (s\<lparr>sent := x\<rparr>) = rewardMessagesFor s"
  "rewardMessagesFor (s\<lparr>rewardDistributions := y\<rparr>) = rewardMessagesFor s"
  "rewardMessagesFor (s\<lparr>activeTasks := z\<rparr>) = rewardMessagesFor s"
  by (rule ext, rule ext, simp add: rewardMessagesFor_def)+


lemma distributeValidatorRewards_finalized [simp]:
  "distributeValidatorRewards (s\<lparr>activeTasks := x\<rparr>)
     (task\<lparr>status := (status task)\<lparr>state := st, completionTime := ct\<rparr>\<rparr>) =
   distributeValidatorRewards s task"
  by (rule ext) (simp add: distributeValidatorRewards_def)























end
